theory Spec2Isabelle
  imports Complex_Main
begin

section \<open>Space news aggregation: data, environment and effects\<close>

text \<open>
  The program (functions/src/index.ts) clears a document store, fetches four JSON
  documents over HTTP one after another, assembles them into one object and writes that
  object to the document \<open>spaceNews/latest\<close>. Two triggers run this pipeline: an HTTP
  request handler and a scheduled function.

  Everything the code does besides computing values is made explicit: the store is a
  value passed through, the calls that reach the outside world are recorded in a trace,
  and every exception is a value \<open>Inl e\<close> of a sum type.
\<close>

subsection \<open>JSON values\<close>

text \<open>
  What \<open>response.json()\<close> yields and what a document of the store holds. The interfaces
  \<open>Nasa\<close>, \<open>SpaceXLaunch\<close>, \<open>SpaceXHistory\<close>, \<open>EonetEvent\<close> and \<open>SpaceNews\<close> of the source are
  compile-time types only: the casts \<open>as Nasa\<close> etc. check nothing at run time, so the
  values flowing through the program are arbitrary JSON values.
\<close>

datatype json =
    JNull
  | JBool bool
  | JNumber real
  | JString string
  | JArray "json list"
  | JObject "(string \<times> json) list"

subsection \<open>Exceptions\<close>

text \<open>
  \<open>FetchStatusError apiName status\<close> is the
  \<open>new Error(`Failed to fetch ${apiName}, status: ${response.status}`)\<close> of
  \<open>fetchWithLogging\<close>; \<open>TransportError\<close> is the rejection of \<open>fetch\<close> itself;
  \<open>JsonSyntaxError\<close> is the rejection of \<open>response.json()\<close> on a body that is not JSON;
  \<open>StoreError\<close> is any rejection by the document store.
\<close>

datatype error =
    FetchStatusError string nat
  | TransportError string
  | JsonSyntaxError
  | StoreError string

subsection \<open>The document store\<close>

text \<open>
  The store is addressed by collection id and document id. It is kept as an association
  list from addresses to document data, in the order in which the store lists them. A
  collection exists exactly when it holds a document. The operations are the ones the
  source calls on the Firestore client: \<open>listCollections\<close>, \<open>collection.get\<close>, a batch of
  deletes committed atomically, and \<open>doc.set\<close> without merge (full overwrite).
  \<open>doc_read\<close> is the read of one address used to state the round-trip properties.
\<close>

type_synonym doc_ref = "string \<times> string"

type_synonym store = "(doc_ref \<times> json) list"

definition listCollections :: "store \<Rightarrow> string list" where
  "listCollections s = remdups (map (\<lambda>x. fst (fst x)) s)"

definition collection_get :: "string \<Rightarrow> store \<Rightarrow> doc_ref list" where
  "collection_get c s = remdups (filter (\<lambda>r. fst r = c) (map fst s))"

definition batch_delete :: "doc_ref list \<Rightarrow> store \<Rightarrow> store" where
  "batch_delete refs s = filter (\<lambda>x. fst x \<notin> set refs) s"

definition doc_set :: "doc_ref \<Rightarrow> json \<Rightarrow> store \<Rightarrow> store" where
  "doc_set r v s = (r, v) # filter (\<lambda>x. fst x \<noteq> r) s"

definition doc_read :: "doc_ref \<Rightarrow> store \<Rightarrow> json option" where
  "doc_read r s = map_of s r"

definition documents :: "store \<Rightarrow> doc_ref list" where
  "documents s = remdups (map fst s)"

subsection \<open>Observable effects\<close>

text \<open>
  One event per call that leaves the process, in the order the calls are made. An event is
  recorded when the call is issued, whether it then succeeds or fails. Log lines carry
  their level and the fixed part of their text together with the label and URL; the
  elapsed time and the truncated payload preview of the source's messages are left out.
\<close>

datatype level = Info | Warn | Debug | Error

datatype event =
    Log level string
  | LogError string error
  | HttpGet string "(string \<times> string) list"
  | ListCollections
  | CollectionGet string
  | BatchCommit "doc_ref list"
  | DocSet doc_ref json

record world =
  store :: store
  trace :: "event list"

definition emit :: "event \<Rightarrow> world \<Rightarrow> world" where
  "emit e w = w\<lparr>trace := trace w @ [e]\<rparr>"

definition init :: "store \<Rightarrow> world" where
  "init s = \<lparr>store = s, trace = []\<rparr>"

subsection \<open>The environment\<close>

text \<open>
  What the program cannot decide itself: the configured API key, the answer of each
  upstream endpoint, and whether a call on the store is rejected. \<open>Rejected\<close> is a
  transport failure of \<open>fetch\<close>; \<open>Responded status body\<close> is a response with its status
  code and its body as JSON, \<open>None\<close> when the body does not parse.
\<close>

datatype http_outcome =
    Rejected string
  | Responded nat "json option"

record env =
  nasa_api_key :: string
  http :: "string \<Rightarrow> (string \<times> string) list \<Rightarrow> http_outcome"
  listCollections_error :: "error option"
  get_error :: "string \<Rightarrow> error option"
  commit_error :: "doc_ref list \<Rightarrow> error option"
  set_error :: "doc_ref \<Rightarrow> json \<Rightarrow> error option"

text \<open>\<open>response.ok\<close>: the status is in the range 200 to 299.\<close>

definition response_ok :: "nat \<Rightarrow> bool" where
  "response_ok status = (200 \<le> status \<and> status \<le> 299)"

subsection \<open>API URLs\<close>

definition SPACEX_LAUNCH_URL :: string where
  "SPACEX_LAUNCH_URL = ''https://api.spacexdata.com/v3/missions''"

definition NASA_APOD_URL :: "env \<Rightarrow> string" where
  "NASA_APOD_URL E = ''https://api.nasa.gov/planetary/apod?api_key='' @ nasa_api_key E"

definition SPACEX_HIST_URL :: string where
  "SPACEX_HIST_URL = ''https://api.spacexdata.com/v4/history''"

definition NASA_EONET_URL :: string where
  "NASA_EONET_URL = ''https://eonet.gsfc.nasa.gov/api/v3/categories/severeStorms''"

section \<open>The program\<close>

subsection \<open>clearFirestore\<close>

text \<open>
  The list of collections is read once; then, for each collection in turn, its documents
  are read, one batch of deletes is built and committed, and a line is logged. A rejected
  call throws out of the loop: nothing is caught here. A rejected commit deletes nothing
  (the batch is atomic).
\<close>

fun clear_loop :: "env \<Rightarrow> string list \<Rightarrow> world \<Rightarrow> (error + unit) \<times> world" where
  "clear_loop E [] w = (Inr (), w)"
| "clear_loop E (c # cs) w =
     (let w1 = emit (CollectionGet c) w in
      case get_error E c of
        Some e \<Rightarrow> (Inl e, w1)
      | None \<Rightarrow>
          (let docs = collection_get c (store w1);
               w2 = emit (BatchCommit docs) w1 in
           case commit_error E docs of
             Some e \<Rightarrow> (Inl e, w2)
           | None \<Rightarrow>
               clear_loop E cs
                 (emit (Log Info (''Cleared collection: '' @ c))
                    (w2\<lparr>store := batch_delete docs (store w2)\<rparr>))))"

definition clearFirestore :: "env \<Rightarrow> world \<Rightarrow> (error + unit) \<times> world" where
  "clearFirestore E w =
     (let w1 = emit ListCollections w in
      case listCollections_error E of
        Some e \<Rightarrow> (Inl e, w1)
      | None \<Rightarrow> clear_loop E (listCollections (store w1)) w1)"

subsection \<open>fetchWithLogging\<close>

text \<open>The body of the \<open>try\<close> block, after the first log line and the call of \<open>fetch\<close>.\<close>

definition fetchWithLogging_try ::
  "env \<Rightarrow> string \<Rightarrow> string \<Rightarrow> (string \<times> string) list \<Rightarrow> world \<Rightarrow> (error + json) \<times> world" where
  "fetchWithLogging_try E url apiName headers w =
     (let w1 = emit (HttpGet url headers) w in
      case http E url headers of
        Rejected cause \<Rightarrow> (Inl (TransportError cause), w1)
      | Responded status body \<Rightarrow>
          if \<not> response_ok status then (Inl (FetchStatusError apiName status), w1)
          else
            (case body of
               None \<Rightarrow> (Inl JsonSyntaxError, w1)
             | Some jsonData \<Rightarrow>
                 (Inr jsonData,
                  emit (Log Debug (apiName @ '' returned data''))
                    (emit (Log Info (apiName @ '' fetched successfully'')) w1))))"

text \<open>The \<open>catch\<close> block logs the error and throws it again.\<close>

definition fetchWithLogging ::
  "env \<Rightarrow> string \<Rightarrow> string \<Rightarrow> (string \<times> string) list \<Rightarrow> world \<Rightarrow> (error + json) \<times> world" where
  "fetchWithLogging E url apiName headers w =
     (case fetchWithLogging_try E url apiName headers
             (emit (Log Info (''Starting to fetch data from '' @ apiName @ '': '' @ url)) w) of
        (Inl e, w') \<Rightarrow> (Inl e, emit (LogError (''Error fetching '' @ apiName) e) w')
      | (Inr jsonData, w') \<Rightarrow> (Inr jsonData, w'))"

subsection \<open>fetchSpaceNews\<close>

text \<open>
  The four fetches, each awaited before the next starts, with the default (empty)
  headers. The object literal returned at the end is the JSON object with the keys
  \<open>nasa\<close>, \<open>spacex\<close>, \<open>spacexHistory\<close> and \<open>eonet\<close>.
\<close>

definition fetchSpaceNews_try :: "env \<Rightarrow> world \<Rightarrow> (error + json) \<times> world" where
  "fetchSpaceNews_try E w =
     (case fetchWithLogging E (NASA_APOD_URL E) ''NASA APOD'' []
             (emit (Log Info ''Starting to fetch all space-related data...'') w) of
        (Inl e, w1) \<Rightarrow> (Inl e, w1)
      | (Inr nasaData, w1) \<Rightarrow>
     (case fetchWithLogging E SPACEX_LAUNCH_URL ''SpaceX Launch'' []
             (emit (Log Info ''NASA data fetched'') w1) of
        (Inl e, w2) \<Rightarrow> (Inl e, w2)
      | (Inr spacexData, w2) \<Rightarrow>
     (case fetchWithLogging E SPACEX_HIST_URL ''SpaceX History'' []
             (emit (Log Info ''SpaceX Launch data fetched'') w2) of
        (Inl e, w3) \<Rightarrow> (Inl e, w3)
      | (Inr spacexHistoryData, w3) \<Rightarrow>
     (case fetchWithLogging E NASA_EONET_URL ''NASA EONET'' []
             (emit (Log Info ''SpaceX History data fetched'') w3) of
        (Inl e, w4) \<Rightarrow> (Inl e, w4)
      | (Inr eonetData, w4) \<Rightarrow>
          (Inr (JObject [(''nasa'', nasaData), (''spacex'', spacexData),
                         (''spacexHistory'', spacexHistoryData), (''eonet'', eonetData)]),
           emit (Log Info ''NASA EONET data fetched'') w4)))))"

text \<open>The \<open>catch\<close> block logs the error and returns \<open>null\<close>.\<close>

definition fetchSpaceNews :: "env \<Rightarrow> world \<Rightarrow> json option \<times> world" where
  "fetchSpaceNews E w =
     (case fetchSpaceNews_try E w of
        (Inl e, w') \<Rightarrow> (None, emit (LogError ''Error fetching space news:'' e) w')
      | (Inr spaceNews, w') \<Rightarrow> (Some spaceNews, w'))"

subsection \<open>fetchAndStoreSpaceNews\<close>

text \<open>
  \<open>firestore.collection("spaceNews").doc("latest").set(spaceNews)\<close>: a rejected write
  changes nothing.
\<close>

definition firestore_set :: "env \<Rightarrow> doc_ref \<Rightarrow> json \<Rightarrow> world \<Rightarrow> (error + unit) \<times> world" where
  "firestore_set E r v w =
     (let w1 = emit (DocSet r v) w in
      case set_error E r v of
        Some e \<Rightarrow> (Inl e, w1)
      | None \<Rightarrow> (Inr (), w1\<lparr>store := doc_set r v (store w1)\<rparr>))"

definition fetchAndStoreSpaceNews_try :: "env \<Rightarrow> world \<Rightarrow> (error + unit) \<times> world" where
  "fetchAndStoreSpaceNews_try E w =
     (case clearFirestore E w of
        (Inl e, w1) \<Rightarrow> (Inl e, w1)
      | (Inr _, w1) \<Rightarrow>
          (case fetchSpaceNews E w1 of
             (None, w2) \<Rightarrow> (Inr (), w2)
           | (Some spaceNews, w2) \<Rightarrow>
               (case firestore_set E (''spaceNews'', ''latest'') spaceNews w2 of
                  (Inl e, w3) \<Rightarrow> (Inl e, w3)
                | (Inr _, w3) \<Rightarrow>
                    (Inr (),
                     emit (Log Info ''Space news successfully stored in Firestore.'') w3))))"

definition fetchAndStoreSpaceNews :: "env \<Rightarrow> world \<Rightarrow> (error + unit) \<times> world" where
  "fetchAndStoreSpaceNews E w =
     (case fetchAndStoreSpaceNews_try E w of
        (Inl e, w') \<Rightarrow> (Inr (), emit (LogError ''Error storing space news:'' e) w')
      | (Inr _, w') \<Rightarrow> (Inr (), w'))"

subsection \<open>The two triggers\<close>

text \<open>The HTTP handler answers with a status code and a plain-text body.\<close>

definition fetchNewsHandler :: "env \<Rightarrow> world \<Rightarrow> (nat \<times> string) \<times> world" where
  "fetchNewsHandler E w =
     (case fetchAndStoreSpaceNews E w of
        (Inr _, w') \<Rightarrow> ((200, ''Space news fetched and stored.''), w')
      | (Inl e, w') \<Rightarrow> ((500, ''Error fetching space news.''), w'))"

definition scheduledApiFetch :: "env \<Rightarrow> world \<Rightarrow> world" where
  "scheduledApiFetch E w =
     (case fetchAndStoreSpaceNews E w of
        (Inr _, w') \<Rightarrow> emit (Log Info ''Space news scheduled fetch completed.'') w'
      | (Inl e, w') \<Rightarrow> emit (LogError ''Error fetching space news on schedule:'' e) w')"

text \<open>
  Both triggers can fire any number of times. \<open>runs\<close> is a sequence of invocations, one
  after another, each in its own environment.
\<close>

datatype trigger = OnRequest | OnSchedule

fun invoke :: "trigger \<Rightarrow> env \<Rightarrow> world \<Rightarrow> world" where
  "invoke OnRequest E w = snd (fetchNewsHandler E w)"
| "invoke OnSchedule E w = scheduledApiFetch E w"

fun runs :: "(trigger \<times> env) list \<Rightarrow> world \<Rightarrow> world" where
  "runs [] w = w"
| "runs (r # rs) w = runs rs (invoke (fst r) (snd r) w)"

section \<open>Vocabulary of the properties\<close>

text \<open>
  The four endpoints in the order in which \<open>fetchSpaceNews\<close> fetches them, and what it
  means for an endpoint to answer successfully: a response with a 2xx status and a body
  that is JSON.
\<close>

definition endpoints :: "env \<Rightarrow> string list" where
  "endpoints E = [NASA_APOD_URL E, SPACEX_LAUNCH_URL, SPACEX_HIST_URL, NASA_EONET_URL]"

definition fetch_ok :: "env \<Rightarrow> string \<Rightarrow> bool" where
  "fetch_ok E url =
     (case http E url [] of
        Rejected cause \<Rightarrow> False
      | Responded status body \<Rightarrow> response_ok status \<and> body \<noteq> None)"

text \<open>The endpoints that one aggregation fetches: all up to and including the first that
  does not answer successfully.\<close>

definition fetched :: "env \<Rightarrow> string list" where
  "fetched E = take (Suc (length (takeWhile (fetch_ok E) (endpoints E)))) (endpoints E)"

text \<open>The HTTP requests of a trace, in order, each with its URL and headers.\<close>

fun http_gets :: "event list \<Rightarrow> (string \<times> (string \<times> string) list) list" where
  "http_gets [] = []"
| "http_gets (HttpGet url headers # es) = (url, headers) # http_gets es"
| "http_gets (e # es) = http_gets es"

text \<open>
  The step of the pipeline an event belongs to. Log lines belong to no step. \<open>steps\<close> is
  the sequence of steps of a trace.
\<close>

datatype step = Clear | Fetch | Write

fun step_of :: "event \<Rightarrow> step option" where
  "step_of ListCollections = Some Clear"
| "step_of (CollectionGet c) = Some Clear"
| "step_of (BatchCommit refs) = Some Clear"
| "step_of (HttpGet url headers) = Some Fetch"
| "step_of (DocSet r v) = Some Write"
| "step_of (Log l m) = None"
| "step_of (LogError m e) = None"

fun steps :: "event list \<Rightarrow> step list" where
  "steps [] = []"
| "steps (e # es) = (case step_of e of None \<Rightarrow> steps es | Some s \<Rightarrow> s # steps es)"

text \<open>
  The calls of a trace that leave the process: every event but the log lines, in order,
  each with its arguments.
\<close>

fun is_call :: "event \<Rightarrow> bool" where
  "is_call (Log l m) = False"
| "is_call (LogError m e) = False"
| "is_call (HttpGet url headers) = True"
| "is_call ListCollections = True"
| "is_call (CollectionGet c) = True"
| "is_call (BatchCommit refs) = True"
| "is_call (DocSet r v) = True"

definition calls :: "event list \<Rightarrow> event list" where
  "calls t = filter is_call t"

text \<open>
  What a clear is expected to do on a store \<open>s\<close>, stated on \<open>s\<close> itself and on what the
  store rejects. \<open>batch_ok E s c\<close>: neither the read of collection \<open>c\<close> nor the batch delete
  of the documents \<open>c\<close> holds in \<open>s\<close> is rejected. \<open>cleared E s\<close>: the collections whose batch
  is committed, which are the listed collections before the first one whose read or commit
  is rejected, and none when the listing itself is rejected. \<open>clear_calls E s\<close>: the calls
  on the store, in order: the listing, then for each collection its read and the commit of
  the batch of its documents, up to and including the first rejected call.
\<close>

definition batch_ok :: "env \<Rightarrow> store \<Rightarrow> string \<Rightarrow> bool" where
  "batch_ok E s c = (get_error E c = None \<and> commit_error E (collection_get c s) = None)"

definition cleared :: "env \<Rightarrow> store \<Rightarrow> string list" where
  "cleared E s =
     (case listCollections_error E of
        Some e \<Rightarrow> []
      | None \<Rightarrow> takeWhile (batch_ok E s) (listCollections s))"

fun loop_calls :: "env \<Rightarrow> store \<Rightarrow> string list \<Rightarrow> event list" where
  "loop_calls E s [] = []"
| "loop_calls E s (c # cs) =
     CollectionGet c #
       (case get_error E c of
          Some e \<Rightarrow> []
        | None \<Rightarrow>
            BatchCommit (collection_get c s) #
              (case commit_error E (collection_get c s) of
                 Some e \<Rightarrow> []
               | None \<Rightarrow> loop_calls E s cs))"

definition clear_calls :: "env \<Rightarrow> store \<Rightarrow> event list" where
  "clear_calls E s =
     ListCollections #
       (case listCollections_error E of
          Some e \<Rightarrow> []
        | None \<Rightarrow> loop_calls E s (listCollections s))"

text \<open>
  The JSON body an endpoint answers with, and the object expected to be written when all
  four endpoints answer successfully: the four bodies in the slots of the source's object
  literal.
\<close>

definition body_of :: "env \<Rightarrow> string \<Rightarrow> json" where
  "body_of E url =
     (case http E url [] of
        Rejected cause \<Rightarrow> JNull
      | Responded status body \<Rightarrow> (case body of None \<Rightarrow> JNull | Some j \<Rightarrow> j))"

definition snapshot_of :: "env \<Rightarrow> json" where
  "snapshot_of E =
     JObject [(''nasa'', body_of E (NASA_APOD_URL E)), (''spacex'', body_of E SPACEX_LAUNCH_URL),
              (''spacexHistory'', body_of E SPACEX_HIST_URL), (''eonet'', body_of E NASA_EONET_URL)]"

section \<open>Scenarios\<close>

text \<open>
  The mocked upstream of the specification's scenario: the daily image, the launch, one
  history entry and no events, with a store that rejects nothing.
\<close>

definition mock_nasa :: json where
  "mock_nasa = JObject [(''title'', JString ''T''), (''explanation'', JString ''E''),
                        (''date'', JString ''2024-01-01'')]"

definition mock_spacex :: json where
  "mock_spacex = JObject [(''name'', JString ''N''), (''details'', JString ''D''),
                          (''date_utc'', JString ''2024-01-02T00:00:00Z'')]"

definition mock_history :: json where
  "mock_history = JArray [JObject [(''event_date_utc'', JString ''2023-01-01''),
                                   (''title'', JString ''H1''), (''details'', JString ''d1'')]]"

definition mock_eonet :: json where
  "mock_eonet = JArray []"

definition mock_http :: "string \<Rightarrow> (string \<times> string) list \<Rightarrow> http_outcome" where
  "mock_http url headers =
     (if url = ''https://api.nasa.gov/planetary/apod?api_key=DEMO_KEY''
        then Responded 200 (Some mock_nasa)
      else if url = ''https://api.spacexdata.com/v3/missions''
        then Responded 200 (Some mock_spacex)
      else if url = ''https://api.spacexdata.com/v4/history''
        then Responded 200 (Some mock_history)
      else if url = ''https://eonet.gsfc.nasa.gov/api/v3/categories/severeStorms''
        then Responded 200 (Some mock_eonet)
      else Rejected ''ENOTFOUND'')"

definition mock_env :: env where
  "mock_env =
     \<lparr>nasa_api_key = ''DEMO_KEY'', http = mock_http, listCollections_error = None,
      get_error = (\<lambda>c. None), commit_error = (\<lambda>refs. None), set_error = (\<lambda>r v. None)\<rparr>"

text \<open>The same upstream with the third endpoint (launch history) answering 503.\<close>

definition history_down_http :: "string \<Rightarrow> (string \<times> string) list \<Rightarrow> http_outcome" where
  "history_down_http url headers =
     (if url = ''https://api.spacexdata.com/v4/history'' then Responded 503 None
      else mock_http url headers)"

definition history_down_env :: env where
  "history_down_env = mock_env\<lparr>http := history_down_http\<rparr>"

text \<open>A store that rejects the batch delete of the collection \<open>misc\<close>.\<close>

definition misc_commit_error :: "doc_ref list \<Rightarrow> error option" where
  "misc_commit_error refs =
     (if refs = [(''misc'', ''a''), (''misc'', ''b'')] then Some (StoreError ''UNAVAILABLE'')
      else None)"

definition commit_rejected_env :: env where
  "commit_rejected_env = mock_env\<lparr>commit_error := misc_commit_error\<rparr>"

text \<open>A store that rejects every write of a document.\<close>

definition set_rejected_env :: env where
  "set_rejected_env = mock_env\<lparr>set_error := (\<lambda>r v. Some (StoreError ''PERMISSION_DENIED''))\<rparr>"

text \<open>A store holding an earlier snapshot and two documents of another collection.\<close>

definition seeded_store :: store where
  "seeded_store =
     [((''spaceNews'', ''latest''), JString ''old''),
      ((''misc'', ''a''), JNull),
      ((''misc'', ''b''), JBool True)]"

text \<open>The snapshot the code assembles from the mocked responses.\<close>

definition mock_snapshot :: json where
  "mock_snapshot =
     JObject [(''nasa'', mock_nasa), (''spacex'', mock_spacex),
              (''spacexHistory'', mock_history), (''eonet'', mock_eonet)]"

text \<open>
  The same four values under the slot names the specification's scenario uses for the
  expected snapshot.
\<close>

definition spec_snapshot :: json where
  "spec_snapshot =
     JObject [(''image'', mock_nasa), (''launch'', mock_spacex),
              (''launchHistory'', mock_history), (''environmentalEvents'', mock_eonet)]"

section \<open>Basic facts\<close>

lemma http_gets_append: "http_gets (xs @ ys) = http_gets xs @ http_gets ys"
  by (induction xs rule: http_gets.induct) simp_all

lemma steps_append: "steps (xs @ ys) = steps xs @ steps ys"
  by (induction xs) (simp_all split: option.splits)

lemma calls_append: "calls (xs @ ys) = calls xs @ calls ys"
  by (simp add: calls_def)

lemma calls_Nil: "calls [] = []"
  by (simp add: calls_def)

lemma calls_Cons: "calls (e # es) = (if is_call e then e # calls es else calls es)"
  by (simp add: calls_def)

lemma store_emit: "store (emit e w) = store w"
  by (simp add: emit_def)

lemma trace_emit: "trace (emit e w) = trace w @ [e]"
  by (simp add: emit_def)

subsection \<open>One fetch\<close>

lemma fetchWithLogging_store: "store (snd (fetchWithLogging E url n hs w)) = store w"
  by (simp add: fetchWithLogging_def fetchWithLogging_try_def store_emit Let_def
      split: http_outcome.splits option.splits)

lemma fetchWithLogging_gets:
  "http_gets (trace (snd (fetchWithLogging E url n hs w))) = http_gets (trace w) @ [(url, hs)]"
  by (simp add: fetchWithLogging_def fetchWithLogging_try_def trace_emit http_gets_append Let_def
      split: http_outcome.splits option.splits)

lemma fetchWithLogging_steps:
  "steps (trace (snd (fetchWithLogging E url n hs w))) = steps (trace w) @ [Fetch]"
  by (simp add: fetchWithLogging_def fetchWithLogging_try_def trace_emit steps_append Let_def
      split: http_outcome.splits option.splits)

lemma fetchWithLogging_calls:
  "calls (trace (snd (fetchWithLogging E url n hs w))) = calls (trace w) @ [HttpGet url hs]"
  by (simp add: fetchWithLogging_def fetchWithLogging_try_def trace_emit calls_append calls_Cons
      calls_Nil Let_def split: http_outcome.splits option.splits)

lemma fetchWithLogging_result:
  "fst (fetchWithLogging E url n hs w) =
     (case http E url hs of
        Rejected cause \<Rightarrow> Inl (TransportError cause)
      | Responded status body \<Rightarrow>
          if response_ok status
          then (case body of None \<Rightarrow> Inl JsonSyntaxError | Some j \<Rightarrow> Inr j)
          else Inl (FetchStatusError n status))"
  by (simp add: fetchWithLogging_def fetchWithLogging_try_def Let_def
      split: http_outcome.splits option.splits)

lemma fetchWithLogging_isl:
  "isl (fst (fetchWithLogging E url n [] w)) = (\<not> fetch_ok E url)"
  by (simp add: fetchWithLogging_result fetch_ok_def split: http_outcome.splits option.splits)

subsection \<open>The clearing loop\<close>

text \<open>
  Whatever the loop returns, it has emptied the first \<open>k\<close> collections of its list and
  touched nothing else; it returns normally exactly when \<open>k\<close> is the whole list.
\<close>

lemma clear_loop_store:
  "clear_loop E cs w = (r, w') \<Longrightarrow>
     \<exists>k \<le> length cs. store w' = filter (\<lambda>x. fst (fst x) \<notin> set (take k cs)) (store w)
        \<and> (r = Inr () \<longleftrightarrow> k = length cs)"
proof (induction cs arbitrary: w)
  case Nil
  then show ?case by auto
next
  case (Cons c cs)
  show ?case
  proof (cases "get_error E c")
    case (Some e)
    with Cons.prems have "r = Inl e" "store w' = store w"
      by (auto simp: store_emit Let_def)
    then show ?thesis by (intro exI[of _ 0]) simp
  next
    case None
    note g = this
    show ?thesis
    proof (cases "commit_error E (collection_get c (store w))")
      case (Some e)
      with g Cons.prems have "r = Inl e" "store w' = store w"
        by (auto simp: store_emit Let_def)
      then show ?thesis by (intro exI[of _ 0]) simp
    next
      case None
      define w3 where "w3 = emit (Log Info (''Cleared collection: '' @ c))
           ((emit (BatchCommit (collection_get c (store w))) (emit (CollectionGet c) w))
             \<lparr>store := batch_delete (collection_get c (store w)) (store w)\<rparr>)"
      from g None Cons.prems have "clear_loop E cs w3 = (r, w')"
        by (simp add: store_emit Let_def w3_def)
      from Cons.IH[OF this] obtain k where k: "k \<le> length cs"
        "store w' = filter (\<lambda>x. fst (fst x) \<notin> set (take k cs)) (store w3)"
        "r = Inr () \<longleftrightarrow> k = length cs" by blast
      have s3: "store w3 = filter (\<lambda>x. fst (fst x) \<noteq> c) (store w)"
        by (auto simp: w3_def store_emit batch_delete_def collection_get_def intro!: filter_cong)
      show ?thesis
        using k by (intro exI[of _ "Suc k"]) (auto simp: s3 intro!: filter_cong)
    qed
  qed
qed

subsection \<open>clearFirestore as a whole\<close>

lemma clearFirestore_store:
  "clearFirestore E w = (r, w') \<Longrightarrow>
     \<exists>k \<le> length (listCollections (store w)).
        store w' = filter (\<lambda>x. fst (fst x) \<notin> set (take k (listCollections (store w)))) (store w)
        \<and> (r = Inr () \<longrightarrow> k = length (listCollections (store w)))
        \<and> (listCollections_error E = None \<longrightarrow> r \<noteq> Inr () \<longrightarrow> k < length (listCollections (store w)))
        \<and> (listCollections_error E \<noteq> None \<longrightarrow> k = 0 \<and> r \<noteq> Inr ())"
proof (cases "listCollections_error E")
  case (Some e)
  assume "clearFirestore E w = (r, w')"
  with Some have "r = Inl e" "store w' = store w"
    by (auto simp: clearFirestore_def Let_def store_emit)
  with Some show ?thesis by (intro exI[of _ 0]) simp
next
  case None
  assume "clearFirestore E w = (r, w')"
  with None have "clear_loop E (listCollections (store w)) (emit ListCollections w) = (r, w')"
    by (simp add: clearFirestore_def Let_def store_emit)
  from clear_loop_store[OF this] None show ?thesis
    by (auto simp: store_emit)
qed

lemma clearFirestore_ok_store:
  assumes "clearFirestore E w = (Inr (), w')"
  shows "store w' = []"
proof -
  from clearFirestore_store[OF assms]
  have "store w' = filter (\<lambda>x. fst (fst x) \<notin> set (listCollections (store w))) (store w)"
    by auto
  also have "\<dots> = []"
    by (auto simp: listCollections_def filter_empty_conv)
  finally show ?thesis .
qed

subsection \<open>The aggregator\<close>

lemma fetchWithLogging_cases:
  "fetchWithLogging E url n [] w = (r, w') \<Longrightarrow>
     store w' = store w
     \<and> http_gets (trace w') = http_gets (trace w) @ [(url, [])]
     \<and> steps (trace w') = steps (trace w) @ [Fetch]
     \<and> calls (trace w') = calls (trace w) @ [HttpGet url []]
     \<and> (isl r \<longleftrightarrow> \<not> fetch_ok E url)"
  using fetchWithLogging_store[of E url n "[]" w] fetchWithLogging_gets[of E url n "[]" w]
    fetchWithLogging_steps[of E url n "[]" w] fetchWithLogging_isl[of E url n w]
    fetchWithLogging_calls[of E url n "[]" w]
  by simp

lemma fetchSpaceNews_try_cases:
  assumes run: "fetchSpaceNews_try E w = (r, w')"
  shows "store w' = store w
     \<and> http_gets (trace w') = http_gets (trace w) @ map (\<lambda>u. (u, [])) (fetched E)
     \<and> steps (trace w') = steps (trace w) @ replicate (length (fetched E)) Fetch
     \<and> calls (trace w') = calls (trace w) @ map (\<lambda>u. HttpGet u []) (fetched E)
     \<and> (isl r \<longleftrightarrow> \<not> list_all (fetch_ok E) (endpoints E))"
proof -
  obtain r1 w1 where p1: "fetchWithLogging E (NASA_APOD_URL E) ''NASA APOD'' []
      (emit (Log Info ''Starting to fetch all space-related data...'') w) = (r1, w1)"
    by fastforce
  obtain r2 w2 where p2: "fetchWithLogging E SPACEX_LAUNCH_URL ''SpaceX Launch'' []
      (emit (Log Info ''NASA data fetched'') w1) = (r2, w2)"
    by fastforce
  obtain r3 w3 where p3: "fetchWithLogging E SPACEX_HIST_URL ''SpaceX History'' []
      (emit (Log Info ''SpaceX Launch data fetched'') w2) = (r3, w3)"
    by fastforce
  obtain r4 w4 where p4: "fetchWithLogging E NASA_EONET_URL ''NASA EONET'' []
      (emit (Log Info ''SpaceX History data fetched'') w3) = (r4, w4)"
    by fastforce
  note f1 = fetchWithLogging_cases[OF p1] and f2 = fetchWithLogging_cases[OF p2]
    and f3 = fetchWithLogging_cases[OF p3] and f4 = fetchWithLogging_cases[OF p4]
  note sm = store_emit trace_emit http_gets_append steps_append calls_append calls_Cons calls_Nil
    fetched_def endpoints_def
  show ?thesis
  proof (cases r1)
    case (Inl e)
    with run p1 have "r = Inl e" "w' = w1" by (simp_all add: fetchSpaceNews_try_def)
    with Inl f1 show ?thesis by (simp add: sm)
  next
    case a: (Inr nasaData)
    show ?thesis
    proof (cases r2)
      case (Inl e)
      with run p1 p2 a have "r = Inl e" "w' = w2" by (simp_all add: fetchSpaceNews_try_def)
      with Inl a f1 f2 show ?thesis by (simp add: sm)
    next
      case b: (Inr spacexData)
      show ?thesis
      proof (cases r3)
        case (Inl e)
        with run p1 p2 p3 a b have "r = Inl e" "w' = w3"
          by (simp_all add: fetchSpaceNews_try_def)
        with Inl a b f1 f2 f3 show ?thesis by (simp add: sm)
      next
        case c: (Inr spacexHistoryData)
        show ?thesis
        proof (cases r4)
          case (Inl e)
          with run p1 p2 p3 p4 a b c have "r = Inl e" "w' = w4"
            by (simp_all add: fetchSpaceNews_try_def)
          with Inl a b c f1 f2 f3 f4 show ?thesis by (simp add: sm)
        next
          case d: (Inr eonetData)
          with run p1 p2 p3 p4 a b c have "isl r = False"
            "w' = emit (Log Info ''NASA EONET data fetched'') w4"
            by (auto simp add: fetchSpaceNews_try_def)
          with a b c d f1 f2 f3 f4 show ?thesis by (simp add: sm)
        qed
      qed
    qed
  qed
qed

lemma fetchSpaceNews_cases:
  "fetchSpaceNews E w = (r, w') \<Longrightarrow>
     store w' = store w
     \<and> http_gets (trace w') = http_gets (trace w) @ map (\<lambda>u. (u, [])) (fetched E)
     \<and> steps (trace w') = steps (trace w) @ replicate (length (fetched E)) Fetch
     \<and> calls (trace w') = calls (trace w) @ map (\<lambda>u. HttpGet u []) (fetched E)
     \<and> (r = None \<longleftrightarrow> \<not> list_all (fetch_ok E) (endpoints E))"
  unfolding fetchSpaceNews_def
  by (auto split: prod.splits sum.splits dest!: fetchSpaceNews_try_cases
      simp: store_emit trace_emit http_gets_append steps_append calls_append calls_Cons calls_Nil)

subsection \<open>The scenarios, evaluated\<close>

lemmas program_defs =
  fetchNewsHandler_def scheduledApiFetch_def fetchAndStoreSpaceNews_def
  fetchAndStoreSpaceNews_try_def firestore_set_def fetchSpaceNews_def fetchSpaceNews_try_def
  fetchWithLogging_def fetchWithLogging_try_def clearFirestore_def
  listCollections_def collection_get_def batch_delete_def doc_set_def doc_read_def
  documents_def emit_def init_def response_ok_def
  NASA_APOD_URL_def SPACEX_LAUNCH_URL_def SPACEX_HIST_URL_def NASA_EONET_URL_def Let_def

lemmas scenario_defs =
  mock_env_def mock_http_def history_down_env_def history_down_http_def
  commit_rejected_env_def misc_commit_error_def set_rejected_env_def seeded_store_def

lemma mock_run_store:
  "store (snd (fetchAndStoreSpaceNews mock_env (init seeded_store)))
     = [((''spaceNews'', ''latest''), mock_snapshot)]"
  by (simp add: program_defs scenario_defs mock_snapshot_def del: set_filter set_map set_remdups)

lemma history_down_run:
  "fetchNewsHandler history_down_env (init seeded_store) =
   ((200, ''Space news fetched and stored.''),
  \<lparr>store = [],
     trace =
       [ListCollections, CollectionGet ''spaceNews'',
        BatchCommit [(''spaceNews'', ''latest'')],
        Log Info ''Cleared collection: spaceNews'', CollectionGet ''misc'',
        BatchCommit [(''misc'', ''a''), (''misc'', ''b'')],
        Log Info ''Cleared collection: misc'',
        Log Info ''Starting to fetch all space-related data...'',
        Log Info
         ''Starting to fetch data from NASA APOD: https://api.nasa.gov/planetary/apod?api_key=DEMO_KEY'',
        HttpGet ''https://api.nasa.gov/planetary/apod?api_key=DEMO_KEY'' [],
        Log Info ''NASA APOD fetched successfully'',
        Log Debug ''NASA APOD returned data'',
        Log Info ''NASA data fetched'',
        Log Info
         ''Starting to fetch data from SpaceX Launch: https://api.spacexdata.com/v3/missions'',
        HttpGet ''https://api.spacexdata.com/v3/missions'' [],
        Log Info ''SpaceX Launch fetched successfully'',
        Log Debug ''SpaceX Launch returned data'',
        Log Info ''SpaceX Launch data fetched'',
        Log Info
         ''Starting to fetch data from SpaceX History: https://api.spacexdata.com/v4/history'',
        HttpGet ''https://api.spacexdata.com/v4/history'' [],
        LogError ''Error fetching SpaceX History''
         (FetchStatusError ''SpaceX History'' 503),
        LogError ''Error fetching space news:''
         (FetchStatusError ''SpaceX History'' 503)]\<rparr>)"
  by (simp add: program_defs scenario_defs mock_snapshot_def del: set_filter set_map set_remdups)

lemma commit_rejected_run:
  "fetchAndStoreSpaceNews commit_rejected_env (init seeded_store) =
  (Inr (),
  \<lparr>store = [((''misc'', ''a''), JNull), ((''misc'', ''b''), JBool True)],
     trace =
       [ListCollections, CollectionGet ''spaceNews'',
        BatchCommit [(''spaceNews'', ''latest'')],
        Log Info ''Cleared collection: spaceNews'', CollectionGet ''misc'',
        BatchCommit [(''misc'', ''a''), (''misc'', ''b'')],
        LogError ''Error storing space news:''
         (StoreError ''UNAVAILABLE'')]\<rparr>)"
  by (simp add: program_defs scenario_defs mock_snapshot_def del: set_filter set_map set_remdups)

lemma commit_rejected_clear:
  "clearFirestore commit_rejected_env (init seeded_store) =
  (Inl (StoreError ''UNAVAILABLE''),
  \<lparr>store = [((''misc'', ''a''), JNull), ((''misc'', ''b''), JBool True)],
     trace =
       [ListCollections, CollectionGet ''spaceNews'',
        BatchCommit [(''spaceNews'', ''latest'')],
        Log Info ''Cleared collection: spaceNews'', CollectionGet ''misc'',
        BatchCommit [(''misc'', ''a''), (''misc'', ''b'')]]\<rparr>)"
  by (simp add: program_defs scenario_defs mock_snapshot_def del: set_filter set_map set_remdups)

subsection \<open>One run of the pipeline\<close>

lemma fetchSpaceNews_success:
  assumes "http E (NASA_APOD_URL E) [] = Responded s1 (Some nasaData)" and "response_ok s1"
    and "http E SPACEX_LAUNCH_URL [] = Responded s2 (Some spacexData)" and "response_ok s2"
    and "http E SPACEX_HIST_URL [] = Responded s3 (Some spacexHistoryData)" and "response_ok s3"
    and "http E NASA_EONET_URL [] = Responded s4 (Some eonetData)" and "response_ok s4"
  shows "fst (fetchSpaceNews E w) =
     Some (JObject [(''nasa'', nasaData), (''spacex'', spacexData),
                    (''spacexHistory'', spacexHistoryData), (''eonet'', eonetData)])"
proof -
  have r: "\<And>n w. fst (fetchWithLogging E (NASA_APOD_URL E) n [] w) = Inr nasaData"
    "\<And>n w. fst (fetchWithLogging E SPACEX_LAUNCH_URL n [] w) = Inr spacexData"
    "\<And>n w. fst (fetchWithLogging E SPACEX_HIST_URL n [] w) = Inr spacexHistoryData"
    "\<And>n w. fst (fetchWithLogging E NASA_EONET_URL n [] w) = Inr eonetData"
    using assms by (simp_all add: fetchWithLogging_result)
  have p: "\<And>u n w v. fst (fetchWithLogging E u n [] w) = Inr v \<Longrightarrow>
      \<exists>w'. fetchWithLogging E u n [] w = (Inr v, w')"
    by (simp add: prod_eq_iff)
  obtain w1 where p1: "fetchWithLogging E (NASA_APOD_URL E) ''NASA APOD'' []
      (emit (Log Info ''Starting to fetch all space-related data...'') w) = (Inr nasaData, w1)"
    using p[OF r(1)] by blast
  obtain w2 where p2: "fetchWithLogging E SPACEX_LAUNCH_URL ''SpaceX Launch'' []
      (emit (Log Info ''NASA data fetched'') w1) = (Inr spacexData, w2)"
    using p[OF r(2)] by blast
  obtain w3 where p3: "fetchWithLogging E SPACEX_HIST_URL ''SpaceX History'' []
      (emit (Log Info ''SpaceX Launch data fetched'') w2) = (Inr spacexHistoryData, w3)"
    using p[OF r(3)] by blast
  obtain w4 where p4: "fetchWithLogging E NASA_EONET_URL ''NASA EONET'' []
      (emit (Log Info ''SpaceX History data fetched'') w3) = (Inr eonetData, w4)"
    using p[OF r(4)] by blast
  show ?thesis
    by (simp add: fetchSpaceNews_def fetchSpaceNews_try_def p1 p2 p3 p4)
qed

lemma run_clear_failed:
  assumes "clearFirestore E w = (Inl e, w1)"
  shows "fetchAndStoreSpaceNews E w = (Inr (), emit (LogError ''Error storing space news:'' e) w1)"
  using assms by (simp add: fetchAndStoreSpaceNews_def fetchAndStoreSpaceNews_try_def)

lemma run_fetch_failed:
  assumes "clearFirestore E w = (Inr (), w1)" and "fetchSpaceNews E w1 = (None, w2)"
  shows "fetchAndStoreSpaceNews E w = (Inr (), w2)"
  using assms by (simp add: fetchAndStoreSpaceNews_def fetchAndStoreSpaceNews_try_def)

lemma run_set_failed:
  assumes "clearFirestore E w = (Inr (), w1)" and "fetchSpaceNews E w1 = (Some v, w2)"
    and "set_error E (''spaceNews'', ''latest'') v = Some e"
  shows "fetchAndStoreSpaceNews E w =
     (Inr (), emit (LogError ''Error storing space news:'' e)
                (emit (DocSet (''spaceNews'', ''latest'') v) w2))"
  using assms
  by (simp add: fetchAndStoreSpaceNews_def fetchAndStoreSpaceNews_try_def firestore_set_def Let_def)

lemma run_stored:
  assumes "clearFirestore E w = (Inr (), w1)" and "fetchSpaceNews E w1 = (Some v, w2)"
    and "set_error E (''spaceNews'', ''latest'') v = None"
  shows "fetchAndStoreSpaceNews E w =
     (Inr (), emit (Log Info ''Space news successfully stored in Firestore.'')
                ((emit (DocSet (''spaceNews'', ''latest'') v) w2)
                   \<lparr>store := doc_set (''spaceNews'', ''latest'') v (store w2)\<rparr>))"
  using assms
  by (simp add: fetchAndStoreSpaceNews_def fetchAndStoreSpaceNews_try_def firestore_set_def
      Let_def store_emit)

text \<open>The store after a run, by the four ways a run can end.\<close>

lemma run_store_cases:
  obtains (clear_failed) e w1 where "clearFirestore E w = (Inl e, w1)"
      "store (snd (fetchAndStoreSpaceNews E w)) = store w1"
  | (not_written) "fst (clearFirestore E w) = Inr ()"
      "store (snd (fetchAndStoreSpaceNews E w)) = []"
  | (written) v where "fst (clearFirestore E w) = Inr ()"
      "store (snd (fetchAndStoreSpaceNews E w)) = [((''spaceNews'', ''latest''), v)]"
proof -
  obtain rc w1 where c: "clearFirestore E w = (rc, w1)" by fastforce
  show thesis
  proof (cases rc)
    case (Inl e)
    with c run_clear_failed[of E w e w1] clear_failed[of e w1] show thesis
      by (simp add: store_emit)
  next
    case (Inr u)
    with c have c': "clearFirestore E w = (Inr (), w1)" by simp
    then have s1: "store w1 = []" by (rule clearFirestore_ok_store)
    obtain r2 w2 where f: "fetchSpaceNews E w1 = (r2, w2)" by fastforce
    from fetchSpaceNews_cases[OF f] s1 have s2: "store w2 = []" by simp
    show thesis
    proof (cases r2)
      case None
      with run_fetch_failed[OF c'] f s2 not_written c' show thesis by simp
    next
      case (Some v)
      show thesis
      proof (cases "set_error E (''spaceNews'', ''latest'') v")
        case None
        with run_stored[OF c', of v w2] f Some s2 written[of v] c' show thesis
          by (simp add: store_emit doc_set_def)
      next
        case (Some e)
        with run_set_failed[OF c', of v w2 e] f \<open>r2 = Some v\<close> s2 not_written c' show thesis
          by (simp add: store_emit)
      qed
    qed
  qed
qed

subsection \<open>The clear, call by call\<close>

text \<open>
  The loop visits each listed collection once, so the documents it reads for a collection
  are those the collection held when the clear started.
\<close>

lemma collection_get_filter:
  assumes "c \<notin> D"
  shows "collection_get c (filter (\<lambda>x. fst (fst x) \<notin> D) s) = collection_get c s"
proof -
  have "filter (\<lambda>r. fst r = c) (map fst (filter (\<lambda>x. fst (fst x) \<notin> D) s))
      = filter (\<lambda>r. fst r = c) (map fst s)"
    using assms by (induction s) auto
  then show ?thesis by (simp only: collection_get_def)
qed

lemma batch_delete_collection:
  "batch_delete (collection_get c s) s = filter (\<lambda>x. fst (fst x) \<notin> {c}) s"
  by (auto simp: batch_delete_def collection_get_def intro!: filter_cong)

lemma clear_loop_exact:
  assumes "distinct cs" and "\<forall>c\<in>set cs. collection_get c (store w) = collection_get c s"
  shows "calls (trace (snd (clear_loop E cs w))) = calls (trace w) @ loop_calls E s cs
     \<and> store (snd (clear_loop E cs w)) =
         filter (\<lambda>x. fst (fst x) \<notin> set (takeWhile (batch_ok E s) cs)) (store w)
     \<and> (fst (clear_loop E cs w) = Inr () \<longleftrightarrow> list_all (batch_ok E s) cs)"
  using assms
proof (induction cs arbitrary: w)
  case Nil
  show ?case by simp
next
  case (Cons c cs)
  from Cons.prems have cg: "collection_get c (store w) = collection_get c s" by simp
  show ?case
  proof (cases "get_error E c")
    case (Some e)
    then show ?thesis
      by (simp add: Let_def trace_emit store_emit calls_append calls_Cons calls_Nil batch_ok_def)
  next
    case None
    note g = this
    show ?thesis
    proof (cases "commit_error E (collection_get c s)")
      case (Some e)
      with g cg show ?thesis
        by (simp add: Let_def trace_emit store_emit calls_append calls_Cons calls_Nil batch_ok_def)
    next
      case None
      define w3 where "w3 = emit (Log Info (''Cleared collection: '' @ c))
           ((emit (BatchCommit (collection_get c (store w))) (emit (CollectionGet c) w))
             \<lparr>store := batch_delete (collection_get c (store w)) (store w)\<rparr>)"
      from g None cg have eq: "clear_loop E (c # cs) w = clear_loop E cs w3"
        by (simp add: store_emit Let_def w3_def)
      have s3: "store w3 = filter (\<lambda>x. fst (fst x) \<notin> {c}) (store w)"
        by (simp add: w3_def store_emit batch_delete_collection)
      have t3: "calls (trace w3) =
          calls (trace w) @ [CollectionGet c, BatchCommit (collection_get c s)]"
        by (simp add: w3_def trace_emit calls_append calls_Cons calls_Nil cg)
      from Cons.prems have d: "distinct cs" and nc: "c \<notin> set cs" by simp_all
      have inv: "\<forall>c'\<in>set cs. collection_get c' (store w3) = collection_get c' s"
      proof
        fix c' assume m: "c' \<in> set cs"
        with nc have "c' \<notin> {c}" by auto
        then have "collection_get c' (store w3) = collection_get c' (store w)"
          unfolding s3 by (rule collection_get_filter)
        with Cons.prems(2) m show "collection_get c' (store w3) = collection_get c' s" by simp
      qed
      note ih = Cons.IH[OF d inv]
      have ok: "batch_ok E s c" using g None by (simp add: batch_ok_def)
      have f: "filter (\<lambda>x. fst (fst x) \<notin> set (takeWhile (batch_ok E s) cs)) (store w3)
          = filter (\<lambda>x. fst (fst x) \<notin> set (takeWhile (batch_ok E s) (c # cs))) (store w)"
        unfolding s3 using ok by (auto intro!: filter_cong)
      from ih show ?thesis
        unfolding eq t3 f[symmetric] using g None ok by simp
    qed
  qed
qed

lemma clearFirestore_exact:
  "calls (trace (snd (clearFirestore E w))) = calls (trace w) @ clear_calls E (store w)
   \<and> store (snd (clearFirestore E w)) =
       filter (\<lambda>x. fst (fst x) \<notin> set (cleared E (store w))) (store w)
   \<and> (fst (clearFirestore E w) = Inr () \<longleftrightarrow>
        listCollections_error E = None
        \<and> list_all (batch_ok E (store w)) (listCollections (store w)))"
proof (cases "listCollections_error E")
  case (Some e)
  then show ?thesis
    by (simp add: clearFirestore_def clear_calls_def cleared_def Let_def trace_emit store_emit
        calls_append calls_Cons calls_Nil)
next
  case None
  have d: "distinct (listCollections (store w))" by (simp add: listCollections_def)
  have i: "\<forall>c\<in>set (listCollections (store w)).
      collection_get c (store (emit ListCollections w)) = collection_get c (store w)"
    by (simp add: store_emit)
  from clear_loop_exact[OF d i, of E] None show ?thesis
    by (simp add: clearFirestore_def clear_calls_def cleared_def Let_def trace_emit store_emit
        calls_append calls_Cons calls_Nil)
qed

text \<open>Emptying a listed collection changes the store.\<close>

lemma filter_cleared_unchanged:
  assumes "set cs \<subseteq> set (listCollections s)"
  shows "filter (\<lambda>x. fst (fst x) \<notin> set cs) s = s \<longleftrightarrow> cs = []"
proof
  assume eq: "filter (\<lambda>x. fst (fst x) \<notin> set cs) s = s"
  show "cs = []"
  proof (rule ccontr)
    assume "cs \<noteq> []"
    then obtain c where c: "c \<in> set cs" by (cases cs) auto
    with assms have "c \<in> set (listCollections s)" by blast
    then obtain x where x: "x \<in> set s" "fst (fst x) = c" by (auto simp: listCollections_def)
    from eq have "\<forall>x\<in>set s. fst (fst x) \<notin> set cs" by (simp add: filter_id_conv)
    with x c show False by blast
  qed
next
  assume "cs = []"
  then show "filter (\<lambda>x. fst (fst x) \<notin> set cs) s = s" by simp
qed

lemma cleared_subset: "set (cleared E s) \<subseteq> set (listCollections s)"
  by (auto simp: cleared_def split: option.splits dest: set_takeWhileD)

lemma takeWhile_short: "\<not> list_all P xs \<Longrightarrow> length (takeWhile P xs) < length xs"
  by (induction xs) auto

lemma clear_loop_error:
  assumes "distinct cs" and "\<forall>c\<in>set cs. collection_get c (store w) = collection_get c s"
    and "fst (clear_loop E cs w) = Inl e"
  shows "get_error E (cs ! length (takeWhile (batch_ok E s) cs)) = Some e
     \<or> (get_error E (cs ! length (takeWhile (batch_ok E s) cs)) = None
        \<and> commit_error E (collection_get (cs ! length (takeWhile (batch_ok E s) cs)) s) = Some e)"
  using assms
proof (induction cs arbitrary: w)
  case Nil
  then show ?case by simp
next
  case (Cons c cs)
  from Cons.prems have cg: "collection_get c (store w) = collection_get c s" by simp
  show ?case
  proof (cases "get_error E c")
    case (Some e')
    with Cons.prems(3) show ?thesis by (simp add: Let_def batch_ok_def)
  next
    case None
    note g = this
    show ?thesis
    proof (cases "commit_error E (collection_get c s)")
      case (Some e')
      with g cg Cons.prems(3) show ?thesis by (simp add: Let_def batch_ok_def store_emit)
    next
      case None
      define w3 where "w3 = emit (Log Info (''Cleared collection: '' @ c))
           ((emit (BatchCommit (collection_get c (store w))) (emit (CollectionGet c) w))
             \<lparr>store := batch_delete (collection_get c (store w)) (store w)\<rparr>)"
      from g None cg have eq: "clear_loop E (c # cs) w = clear_loop E cs w3"
        by (simp add: store_emit Let_def w3_def)
      have s3: "store w3 = filter (\<lambda>x. fst (fst x) \<notin> {c}) (store w)"
        by (simp add: w3_def store_emit batch_delete_collection)
      from Cons.prems have d: "distinct cs" and nc: "c \<notin> set cs" by simp_all
      have inv: "\<forall>c'\<in>set cs. collection_get c' (store w3) = collection_get c' s"
      proof
        fix c' assume m: "c' \<in> set cs"
        with nc have "c' \<notin> {c}" by auto
        then have "collection_get c' (store w3) = collection_get c' (store w)"
          unfolding s3 by (rule collection_get_filter)
        with Cons.prems(2) m show "collection_get c' (store w3) = collection_get c' s" by simp
      qed
      from Cons.prems(3) have "fst (clear_loop E cs w3) = Inl e" by (simp only: eq)
      note ih = Cons.IH[OF d inv this]
      have ok: "batch_ok E s c" using g None by (simp add: batch_ok_def)
      from ih ok show ?thesis by simp
    qed
  qed
qed

lemma clearFirestore_error:
  assumes "fst (clearFirestore E w) = Inl e"
  shows "listCollections_error E = Some e
     \<or> (listCollections_error E = None
        \<and> (get_error E (listCollections (store w) ! length (cleared E (store w))) = Some e
           \<or> (get_error E (listCollections (store w) ! length (cleared E (store w))) = None
              \<and> commit_error E
                   (collection_get (listCollections (store w) ! length (cleared E (store w)))
                      (store w)) = Some e)))"
proof (cases "listCollections_error E")
  case (Some e')
  with assms show ?thesis by (simp add: clearFirestore_def Let_def)
next
  case None
  have d: "distinct (listCollections (store w))" by (simp add: listCollections_def)
  have i: "\<forall>c\<in>set (listCollections (store w)).
      collection_get c (store (emit ListCollections w)) = collection_get c (store w)"
    by (simp add: store_emit)
  from assms None have "fst (clear_loop E (listCollections (store w)) (emit ListCollections w)) = Inl e"
    by (simp add: clearFirestore_def Let_def store_emit)
  from clear_loop_error[OF d i this] None show ?thesis by (simp add: cleared_def)
qed

section \<open>The aggregator stops at the first failing fetch\<close>

text \<open>
  Claim C2. Whenever one of the four endpoints does not answer successfully, \<open>fetchSpaceNews\<close>
  returns \<open>null\<close> (no partial snapshot), leaves the store alone, logs the failure, and has
  requested exactly the endpoints up to and including the first failing one, in the fixed
  order daily image, launch, launch history, environmental events: no endpoint after the
  failing one is fetched.
\<close>

theorem fetchSpaceNews_stops_at_first_failure:
  assumes "\<not> list_all (fetch_ok E) (endpoints E)"
  shows "fst (fetchSpaceNews E w) = None
     \<and> store (snd (fetchSpaceNews E w)) = store w
     \<and> http_gets (trace (snd (fetchSpaceNews E w))) =
         http_gets (trace w) @
         map (\<lambda>u. (u, [])) (take (Suc (length (takeWhile (fetch_ok E) (endpoints E)))) (endpoints E))
     \<and> length (takeWhile (fetch_ok E) (endpoints E)) < length (endpoints E)
     \<and> (\<exists>e. last (trace (snd (fetchSpaceNews E w))) = LogError ''Error fetching space news:'' e)"
proof -
  obtain r w' where p: "fetchSpaceNews E w = (r, w')" by fastforce
  from fetchSpaceNews_cases[OF p] assms have "r = None" "store w' = store w"
    "http_gets (trace w') = http_gets (trace w) @ map (\<lambda>u. (u, [])) (fetched E)" by simp_all
  moreover from assms have "length (takeWhile (fetch_ok E) (endpoints E)) < length (endpoints E)"
    by (auto simp: endpoints_def)
  moreover from p \<open>r = None\<close> have "\<exists>e. last (trace w') = LogError ''Error fetching space news:'' e"
    by (auto simp: fetchSpaceNews_def trace_emit split: prod.splits sum.splits)
  ultimately show ?thesis by (simp add: p fetched_def)
qed

text \<open>With the launch history answering 503, three requests are made and the fourth is not.\<close>

theorem fetchSpaceNews_stops_at_first_failure_witness:
  "\<not> list_all (fetch_ok history_down_env) (endpoints history_down_env)
   \<and> fst (fetchSpaceNews history_down_env (init seeded_store)) = None
   \<and> http_gets (trace (snd (fetchSpaceNews history_down_env (init seeded_store)))) =
       [(''https://api.nasa.gov/planetary/apod?api_key=DEMO_KEY'', []),
        (''https://api.spacexdata.com/v3/missions'', []),
        (''https://api.spacexdata.com/v4/history'', [])]"
proof -
  have h: "\<not> list_all (fetch_ok history_down_env) (endpoints history_down_env)"
    by (simp add: fetch_ok_def endpoints_def history_down_env_def history_down_http_def
        mock_env_def mock_http_def response_ok_def NASA_APOD_URL_def SPACEX_LAUNCH_URL_def
        SPACEX_HIST_URL_def NASA_EONET_URL_def)
  have t: "take (Suc (length (takeWhile (fetch_ok history_down_env) (endpoints history_down_env))))
       (endpoints history_down_env) = [''https://api.nasa.gov/planetary/apod?api_key=DEMO_KEY'',
        ''https://api.spacexdata.com/v3/missions'', ''https://api.spacexdata.com/v4/history'']"
    by (simp add: fetch_ok_def endpoints_def history_down_env_def history_down_http_def
        mock_env_def mock_http_def response_ok_def NASA_APOD_URL_def SPACEX_LAUNCH_URL_def
        SPACEX_HIST_URL_def NASA_EONET_URL_def)
  from fetchSpaceNews_stops_at_first_failure[OF h, of "init seeded_store"] h t
  show ?thesis by (simp add: init_def)
qed

section \<open>The HTTP fetch client\<close>

text \<open>
  Claim C6. Every call of \<open>fetchWithLogging\<close> issues exactly one GET to the given URL with
  the given headers and does not touch the store. If the transport fails, that failure is
  thrown on; if the response status is outside 200 to 299, the call fails with the error
  carrying the endpoint label and the status code; if the status is 2xx, the call returns
  the body parsed as JSON, unmodified and unvalidated (and fails if the body is not JSON).
\<close>

theorem fetchWithLogging_contract:
  "http_gets (trace (snd (fetchWithLogging E url apiName headers w))) =
      http_gets (trace w) @ [(url, headers)]
   \<and> store (snd (fetchWithLogging E url apiName headers w)) = store w
   \<and> fst (fetchWithLogging E url apiName headers w) =
       (case http E url headers of
          Rejected cause \<Rightarrow> Inl (TransportError cause)
        | Responded status body \<Rightarrow>
            if response_ok status
            then (case body of None \<Rightarrow> Inl JsonSyntaxError | Some jsonData \<Rightarrow> Inr jsonData)
            else Inl (FetchStatusError apiName status))"
  by (simp add: fetchWithLogging_def fetchWithLogging_try_def trace_emit store_emit
      http_gets_append Let_def split: http_outcome.splits option.splits)

section \<open>Clearing and writing\<close>

text \<open>
  Claim C8. After a successful \<open>clearFirestore\<close>, whatever the store held before, listing
  the store returns no collection and no document.
\<close>

theorem clearFirestore_leaves_no_document:
  assumes "fst (clearFirestore E w) = Inr ()"
  shows "store (snd (clearFirestore E w)) = []
     \<and> listCollections (store (snd (clearFirestore E w))) = []
     \<and> documents (store (snd (clearFirestore E w))) = []
     \<and> (\<forall>c. collection_get c (store (snd (clearFirestore E w))) = [])"
proof -
  obtain w' where "clearFirestore E w = (Inr (), w')"
    using assms by (cases "clearFirestore E w") simp
  then have "snd (clearFirestore E w) = w'" "store w' = []"
    by (simp_all add: clearFirestore_ok_store)
  then show ?thesis
    by (simp add: listCollections_def documents_def collection_get_def)
qed

text \<open>A store seeded with three documents in two collections is empty after the clear.\<close>

theorem clearFirestore_leaves_no_document_witness:
  "fst (clearFirestore mock_env (init seeded_store)) = Inr ()
   \<and> seeded_store \<noteq> []
   \<and> listCollections seeded_store = [''spaceNews'', ''misc'']
   \<and> store (snd (clearFirestore mock_env (init seeded_store))) = []
   \<and> documents (store (snd (clearFirestore mock_env (init seeded_store)))) = []"
proof -
  have h: "fst (clearFirestore mock_env (init seeded_store)) = Inr ()"
    by (simp add: clearFirestore_def mock_env_def init_def seeded_store_def emit_def
        listCollections_def collection_get_def batch_delete_def Let_def)
  from clearFirestore_leaves_no_document[OF h] h show ?thesis
    by (simp add: seeded_store_def listCollections_def documents_def)
qed

text \<open>
  Claim C7. Round trip: for every snapshot \<open>S\<close> and every prior store, a successful clear
  followed by a successful write of \<open>S\<close> to \<open>spaceNews/latest\<close> makes a read of that address
  return exactly \<open>S\<close>; it is then the only document of the store.
\<close>

theorem clear_write_read_roundtrip:
  assumes "clearFirestore E w = (Inr (), w1)"
    and "firestore_set E (''spaceNews'', ''latest'') S w1 = (Inr (), w2)"
  shows "doc_read (''spaceNews'', ''latest'') (store w2) = Some S
     \<and> documents (store w2) = [(''spaceNews'', ''latest'')]"
proof -
  from assms(1) have "store w1 = []" by (rule clearFirestore_ok_store)
  with assms(2) have "store w2 = [((''spaceNews'', ''latest''), S)]"
    by (auto simp: firestore_set_def Let_def store_emit doc_set_def split: option.splits)
  then show ?thesis by (simp add: doc_read_def documents_def)
qed

text \<open>The round trip on the seeded store, with the snapshot of the mocked responses.\<close>

theorem clear_write_read_roundtrip_witness:
  "fst (clearFirestore mock_env (init seeded_store)) = Inr ()
   \<and> fst (firestore_set mock_env (''spaceNews'', ''latest'') mock_snapshot
            (snd (clearFirestore mock_env (init seeded_store)))) = Inr ()
   \<and> doc_read (''spaceNews'', ''latest'')
        (store (snd (firestore_set mock_env (''spaceNews'', ''latest'') mock_snapshot
                      (snd (clearFirestore mock_env (init seeded_store)))))) = Some mock_snapshot"
proof -
  have c: "fst (clearFirestore mock_env (init seeded_store)) = Inr ()"
    by (simp add: clearFirestore_def mock_env_def init_def seeded_store_def emit_def
        listCollections_def collection_get_def batch_delete_def Let_def)
  have s: "fst (firestore_set mock_env (''spaceNews'', ''latest'') mock_snapshot
            (snd (clearFirestore mock_env (init seeded_store)))) = Inr ()"
    by (simp add: firestore_set_def mock_env_def Let_def)
  have c': "clearFirestore mock_env (init seeded_store)
      = (Inr (), snd (clearFirestore mock_env (init seeded_store)))"
    using c by (simp add: prod_eq_iff)
  have s': "firestore_set mock_env (''spaceNews'', ''latest'') mock_snapshot
              (snd (clearFirestore mock_env (init seeded_store)))
      = (Inr (), snd (firestore_set mock_env (''spaceNews'', ''latest'') mock_snapshot
              (snd (clearFirestore mock_env (init seeded_store)))))"
    using s by (simp add: prod_eq_iff)
  from clear_write_read_roundtrip[OF c' s'] c s show ?thesis by simp
qed

section \<open>Failures inside a run\<close>

lemma fetchAndStoreSpaceNews_returns: "fst (fetchAndStoreSpaceNews E w) = Inr ()"
  by (simp add: fetchAndStoreSpaceNews_def split: prod.splits sum.splits)

lemma fetchNewsHandler_eq:
  "fetchNewsHandler E w =
     ((200, ''Space news fetched and stored.''), snd (fetchAndStoreSpaceNews E w))"
  using fetchAndStoreSpaceNews_returns[of E w]
  by (cases "fetchAndStoreSpaceNews E w") (simp add: fetchNewsHandler_def)

lemma scheduledApiFetch_eq:
  "scheduledApiFetch E w =
     emit (Log Info ''Space news scheduled fetch completed.'') (snd (fetchAndStoreSpaceNews E w))"
  using fetchAndStoreSpaceNews_returns[of E w]
  by (cases "fetchAndStoreSpaceNews E w") (simp add: scheduledApiFetch_def)

lemma fetchSpaceNews_null_logged:
  assumes "fetchSpaceNews E w = (None, w')"
  shows "\<exists>e. last (trace w') = LogError ''Error fetching space news:'' e"
  using assms by (auto simp: fetchSpaceNews_def trace_emit split: prod.splits sum.splits)

text \<open>
  Claim C10. \<open>fetchAndStoreSpaceNews\<close> never throws: it returns normally in every
  environment and from every store. A failure of the clear or of the write is caught by
  its own \<open>catch\<close> and logged there; a failed fetch is logged by \<open>fetchSpaceNews\<close>, which
  returns \<open>null\<close>. So the \<open>catch\<close> branches of both triggers are never taken: the HTTP
  handler always answers 200 with the success text, and the scheduled function always logs
  its completion line. When the aggregation returns \<open>null\<close>, the run ends in the world the
  aggregator left: the store is as the clear left it and nothing but fetches happened
  after the clear, so no write is attempted.
\<close>

theorem fetchAndStoreSpaceNews_never_throws:
  "fst (fetchAndStoreSpaceNews E w) = Inr ()
   \<and> fetchNewsHandler E w =
       ((200, ''Space news fetched and stored.''), snd (fetchAndStoreSpaceNews E w))
   \<and> scheduledApiFetch E w =
       emit (Log Info ''Space news scheduled fetch completed.'') (snd (fetchAndStoreSpaceNews E w))
   \<and> (\<forall>e w1. fetchAndStoreSpaceNews_try E w = (Inl e, w1) \<longrightarrow>
         snd (fetchAndStoreSpaceNews E w) = emit (LogError ''Error storing space news:'' e) w1)
   \<and> (\<forall>w1 w2. clearFirestore E w = (Inr (), w1) \<longrightarrow> fetchSpaceNews E w1 = (None, w2) \<longrightarrow>
         snd (fetchAndStoreSpaceNews E w) = w2
         \<and> store w2 = store w1
         \<and> steps (trace w2) = steps (trace w1) @ replicate (length (fetched E)) Fetch
         \<and> (\<exists>e. last (trace w2) = LogError ''Error fetching space news:'' e))"
proof -
  have a: "\<forall>e w1. fetchAndStoreSpaceNews_try E w = (Inl e, w1) \<longrightarrow>
         snd (fetchAndStoreSpaceNews E w) = emit (LogError ''Error storing space news:'' e) w1"
    by (simp add: fetchAndStoreSpaceNews_def)
  have b: "\<forall>w1 w2. clearFirestore E w = (Inr (), w1) \<longrightarrow> fetchSpaceNews E w1 = (None, w2) \<longrightarrow>
         snd (fetchAndStoreSpaceNews E w) = w2
         \<and> store w2 = store w1
         \<and> steps (trace w2) = steps (trace w1) @ replicate (length (fetched E)) Fetch
         \<and> (\<exists>e. last (trace w2) = LogError ''Error fetching space news:'' e)"
  proof (intro allI impI)
    fix w1 w2
    assume c: "clearFirestore E w = (Inr (), w1)" and f: "fetchSpaceNews E w1 = (None, w2)"
    from run_fetch_failed[OF c f] fetchSpaceNews_cases[OF f] fetchSpaceNews_null_logged[OF f]
    show "snd (fetchAndStoreSpaceNews E w) = w2
         \<and> store w2 = store w1
         \<and> steps (trace w2) = steps (trace w1) @ replicate (length (fetched E)) Fetch
         \<and> (\<exists>e. last (trace w2) = LogError ''Error fetching space news:'' e)"
      by simp
  qed
  from a b show ?thesis
    by (simp only: fetchAndStoreSpaceNews_returns fetchNewsHandler_eq scheduledApiFetch_eq simp_thms)
qed

text \<open>The run with the launch history down, and the run with a rejected batch commit.\<close>

lemma history_down_clear:
  "fst (clearFirestore history_down_env (init seeded_store)) = Inr ()"
  by (simp add: program_defs scenario_defs del: set_filter set_map set_remdups)

lemma history_down_fetch:
  "fst (fetchSpaceNews history_down_env (snd (clearFirestore history_down_env (init seeded_store))))
     = None"
  by (simp add: program_defs scenario_defs del: set_filter set_map set_remdups)

theorem fetchAndStoreSpaceNews_never_throws_witness:
  "fetchAndStoreSpaceNews_try commit_rejected_env (init seeded_store) =
     (Inl (StoreError ''UNAVAILABLE''), snd (clearFirestore commit_rejected_env (init seeded_store)))
   \<and> fetchAndStoreSpaceNews commit_rejected_env (init seeded_store) =
       (Inr (), emit (LogError ''Error storing space news:'' (StoreError ''UNAVAILABLE''))
                  (snd (clearFirestore commit_rejected_env (init seeded_store))))
   \<and> fst (clearFirestore history_down_env (init seeded_store)) = Inr ()
   \<and> fst (fetchSpaceNews history_down_env
            (snd (clearFirestore history_down_env (init seeded_store)))) = None
   \<and> snd (fetchAndStoreSpaceNews history_down_env (init seeded_store)) =
       snd (fetchSpaceNews history_down_env
              (snd (clearFirestore history_down_env (init seeded_store))))
   \<and> store (snd (fetchAndStoreSpaceNews history_down_env (init seeded_store))) = []"
proof -
  let ?w = "init seeded_store"
  have t: "fetchAndStoreSpaceNews_try commit_rejected_env ?w =
     (Inl (StoreError ''UNAVAILABLE''), snd (clearFirestore commit_rejected_env ?w))"
    by (simp add: fetchAndStoreSpaceNews_try_def commit_rejected_clear)
  have c: "clearFirestore history_down_env ?w = (Inr (), snd (clearFirestore history_down_env ?w))"
    using history_down_clear by (simp add: prod_eq_iff)
  have f: "fetchSpaceNews history_down_env (snd (clearFirestore history_down_env ?w)) =
     (None, snd (fetchSpaceNews history_down_env (snd (clearFirestore history_down_env ?w))))"
    using history_down_fetch by (simp add: prod_eq_iff)
  have s: "store (snd (clearFirestore history_down_env ?w)) = []"
    using c by (rule clearFirestore_ok_store)
  note main = fetchAndStoreSpaceNews_never_throws
  from main[of commit_rejected_env ?w] t
  have 1: "fetchAndStoreSpaceNews commit_rejected_env ?w =
       (Inr (), emit (LogError ''Error storing space news:'' (StoreError ''UNAVAILABLE''))
                  (snd (clearFirestore commit_rejected_env ?w)))"
    by (simp add: prod_eq_iff)
  from main[of history_down_env ?w] c f
  have 2: "snd (fetchAndStoreSpaceNews history_down_env ?w) =
       snd (fetchSpaceNews history_down_env (snd (clearFirestore history_down_env ?w)))
     \<and> store (snd (fetchSpaceNews history_down_env (snd (clearFirestore history_down_env ?w))))
        = store (snd (clearFirestore history_down_env ?w))"
    by blast
  from t 1 2 s history_down_clear history_down_fetch show ?thesis by simp
qed

section \<open>The on-demand handler\<close>

text \<open>
  Claim C1, evaluated where it fails. With the launch history endpoint answering 503 the
  third fetch throws and the aggregation returns \<open>null\<close>, yet the handler answers 200 with
  the text of success, and the store is left empty: the status 500 of the handler's own
  \<open>catch\<close> branch is never sent.
\<close>

theorem fetchNewsHandler_reports_success_after_failed_fetch:
  "fst (fetchSpaceNews history_down_env
          (snd (clearFirestore history_down_env (init seeded_store)))) = None
   \<and> fst (fetchNewsHandler history_down_env (init seeded_store)) =
       (200, ''Space news fetched and stored.'')
   \<and> store (snd (fetchNewsHandler history_down_env (init seeded_store))) = []"
  by (simp add: history_down_run history_down_fetch)

section \<open>Order of the steps of a run\<close>

lemma fetched_length:
  "length (fetched E) =
     (if list_all (fetch_ok E) (endpoints E) then 4
      else Suc (length (takeWhile (fetch_ok E) (endpoints E))))"
  by (simp add: fetched_def endpoints_def)

lemma invoke_eq:
  "store (invoke t E w) = store (snd (fetchAndStoreSpaceNews E w))"
  "steps (trace (invoke t E w)) = steps (trace (snd (fetchAndStoreSpaceNews E w)))"
  by (cases t; simp add: fetchNewsHandler_eq scheduledApiFetch_eq store_emit trace_emit steps_append)+

lemma steps_calls: "steps (calls t) = steps t"
  by (induction t) (auto simp: calls_Nil calls_Cons elim: is_call.elims)

lemma steps_loop_calls: "steps (loop_calls E s cs) = replicate (length (loop_calls E s cs)) Clear"
  by (induction cs) (simp_all split: option.splits)

lemma steps_clear_calls:
  "steps (clear_calls E s) = replicate (length (clear_calls E s)) Clear"
  by (simp add: clear_calls_def steps_loop_calls split: option.splits)

lemma steps_gets: "steps (map (\<lambda>u. HttpGet u []) us) = replicate (length us) Fetch"
  by (induction us) simp_all

lemma loop_calls_all_ok:
  "list_all (batch_ok E s) cs \<Longrightarrow>
     loop_calls E s cs = concat (map (\<lambda>c. [CollectionGet c, BatchCommit (collection_get c s)]) cs)"
  by (induction cs) (simp_all add: batch_ok_def)

lemma fetch_ok_body:
  "fetch_ok E u \<Longrightarrow> \<exists>st. http E u [] = Responded st (Some (body_of E u)) \<and> response_ok st"
  by (auto simp: fetch_ok_def body_of_def split: http_outcome.splits option.splits)

lemma fetchSpaceNews_all_ok:
  assumes "list_all (fetch_ok E) (endpoints E)"
  shows "fst (fetchSpaceNews E w) = Some (snapshot_of E)"
proof -
  from assms have ok: "fetch_ok E (NASA_APOD_URL E)" "fetch_ok E SPACEX_LAUNCH_URL"
    "fetch_ok E SPACEX_HIST_URL" "fetch_ok E NASA_EONET_URL"
    by (simp_all add: endpoints_def)
  from fetch_ok_body[OF ok(1)] obtain s1 where
    1: "http E (NASA_APOD_URL E) [] = Responded s1 (Some (body_of E (NASA_APOD_URL E)))"
      "response_ok s1" by blast
  from fetch_ok_body[OF ok(2)] obtain s2 where
    2: "http E SPACEX_LAUNCH_URL [] = Responded s2 (Some (body_of E SPACEX_LAUNCH_URL))"
      "response_ok s2" by blast
  from fetch_ok_body[OF ok(3)] obtain s3 where
    3: "http E SPACEX_HIST_URL [] = Responded s3 (Some (body_of E SPACEX_HIST_URL))"
      "response_ok s3" by blast
  from fetch_ok_body[OF ok(4)] obtain s4 where
    4: "http E NASA_EONET_URL [] = Responded s4 (Some (body_of E NASA_EONET_URL))"
      "response_ok s4" by blast
  show ?thesis
    unfolding snapshot_of_def
    by (rule fetchSpaceNews_success[OF 1 2 3 4])
qed

lemma run_calls:
  "calls (trace (snd (fetchAndStoreSpaceNews E w))) =
     calls (trace (snd (clearFirestore E w)))
       @ (if fst (clearFirestore E w) = Inr () then map (\<lambda>u. HttpGet u []) (fetched E) else [])
       @ (if fst (clearFirestore E w) = Inr () \<and> list_all (fetch_ok E) (endpoints E)
          then [DocSet (''spaceNews'', ''latest'') (snapshot_of E)] else [])"
proof -
  obtain rc w1 where c: "clearFirestore E w = (rc, w1)" by fastforce
  note sm = trace_emit calls_append calls_Cons calls_Nil
  show ?thesis
  proof (cases rc)
    case (Inl e)
    with c run_clear_failed[of E w e w1] show ?thesis by (simp add: sm)
  next
    case (Inr u)
    with c have c': "clearFirestore E w = (Inr (), w1)" by simp
    obtain r2 w2 where f: "fetchSpaceNews E w1 = (r2, w2)" by fastforce
    note fc = fetchSpaceNews_cases[OF f]
    show ?thesis
    proof (cases r2)
      case None
      with run_fetch_failed[OF c'] f fc c' show ?thesis by simp
    next
      case (Some v)
      with fc have all: "list_all (fetch_ok E) (endpoints E)" by simp
      from fetchSpaceNews_all_ok[OF all, of w1] f Some have v: "v = snapshot_of E" by simp
      show ?thesis
      proof (cases "set_error E (''spaceNews'', ''latest'') v")
        case None
        with run_stored[OF c', of v w2] f Some fc c' all v show ?thesis by (simp add: sm)
      next
        case (Some e)
        with run_set_failed[OF c', of v w2 e] f \<open>r2 = Some v\<close> fc c' all v show ?thesis
          by (simp add: sm)
      qed
    qed
  qed
qed

lemma invoke_calls:
  "calls (trace (invoke t E w)) = calls (trace (snd (fetchAndStoreSpaceNews E w)))"
  by (cases t; simp add: fetchNewsHandler_eq scheduledApiFetch_eq trace_emit calls_append
      calls_Cons calls_Nil)

text \<open>
  Claim C5. In every run, by either trigger, the calls that leave the process are, in this
  order and with nothing else between them: the calls of the clear, then the fetches, then
  the write. The calls of the clear are the listing of the collections followed, for each
  listed collection in turn, by the read of its documents and the commit of the batch that
  deletes them, up to the first rejected call; when the clear succeeds, every listed
  collection has had its read and its commit, and the store is empty when the first fetch
  is issued. No step is skipped except after a failure: the fetches start exactly when the
  clear succeeded and go on up to and including the first failing endpoint (all four when
  none fails), and the write, of the assembled snapshot to \<open>spaceNews/latest\<close>, is issued
  exactly when the clear and all four fetches succeeded.
\<close>

theorem clear_then_fetch_then_write:
  "calls (trace (invoke t E w)) =
      calls (trace w) @ clear_calls E (store w)
        @ (if fst (clearFirestore E w) = Inr () then map (\<lambda>u. HttpGet u []) (fetched E) else [])
        @ (if fst (clearFirestore E w) = Inr () \<and> list_all (fetch_ok E) (endpoints E)
           then [DocSet (''spaceNews'', ''latest'') (snapshot_of E)] else [])
   \<and> steps (trace (invoke t E w)) =
      steps (trace w) @ replicate (length (clear_calls E (store w))) Clear
        @ replicate (if fst (clearFirestore E w) = Inr () then length (fetched E) else 0) Fetch
        @ replicate (if fst (clearFirestore E w) = Inr () \<and> list_all (fetch_ok E) (endpoints E)
                     then 1 else 0) Write
   \<and> (\<exists>cs. clear_calls E (store w) = ListCollections # cs)
   \<and> length (fetched E) =
       (if list_all (fetch_ok E) (endpoints E) then 4
        else Suc (length (takeWhile (fetch_ok E) (endpoints E))))
   \<and> calls (trace (snd (clearFirestore E w))) = calls (trace w) @ clear_calls E (store w)
   \<and> (fst (clearFirestore E w) = Inr () \<longleftrightarrow>
        listCollections_error E = None
        \<and> list_all (batch_ok E (store w)) (listCollections (store w)))
   \<and> (fst (clearFirestore E w) = Inr () \<longrightarrow>
        store (snd (clearFirestore E w)) = []
        \<and> clear_calls E (store w) =
            ListCollections #
              concat (map (\<lambda>c. [CollectionGet c, BatchCommit (collection_get c (store w))])
                        (listCollections (store w))))"
proof -
  note ex = clearFirestore_exact[of E w]
  have 1: "calls (trace (invoke t E w)) =
      calls (trace w) @ clear_calls E (store w)
        @ (if fst (clearFirestore E w) = Inr () then map (\<lambda>u. HttpGet u []) (fetched E) else [])
        @ (if fst (clearFirestore E w) = Inr () \<and> list_all (fetch_ok E) (endpoints E)
           then [DocSet (''spaceNews'', ''latest'') (snapshot_of E)] else [])"
    using ex by (simp only: invoke_calls run_calls append_assoc)
  have "steps (trace (invoke t E w)) = steps (calls (trace (invoke t E w)))"
    by (simp only: steps_calls)
  also have "\<dots> = steps (trace w) @ replicate (length (clear_calls E (store w))) Clear
        @ replicate (if fst (clearFirestore E w) = Inr () then length (fetched E) else 0) Fetch
        @ replicate (if fst (clearFirestore E w) = Inr () \<and> list_all (fetch_ok E) (endpoints E)
                     then 1 else 0) Write"
    unfolding 1 by (simp add: steps_append steps_calls steps_clear_calls steps_gets)
  finally have 2: "steps (trace (invoke t E w)) =
      steps (trace w) @ replicate (length (clear_calls E (store w))) Clear
        @ replicate (if fst (clearFirestore E w) = Inr () then length (fetched E) else 0) Fetch
        @ replicate (if fst (clearFirestore E w) = Inr () \<and> list_all (fetch_ok E) (endpoints E)
                     then 1 else 0) Write" .
  have 3: "\<exists>cs. clear_calls E (store w) = ListCollections # cs"
    by (simp add: clear_calls_def)
  have 7: "fst (clearFirestore E w) = Inr () \<longrightarrow>
        store (snd (clearFirestore E w)) = []
        \<and> clear_calls E (store w) =
            ListCollections #
              concat (map (\<lambda>c. [CollectionGet c, BatchCommit (collection_get c (store w))])
                        (listCollections (store w)))"
  proof
    assume c: "fst (clearFirestore E w) = Inr ()"
    then have "clearFirestore E w = (Inr (), snd (clearFirestore E w))"
      by (simp add: prod_eq_iff)
    then have s: "store (snd (clearFirestore E w)) = []" by (rule clearFirestore_ok_store)
    from ex c have "listCollections_error E = None"
      "list_all (batch_ok E (store w)) (listCollections (store w))" by simp_all
    then have "clear_calls E (store w) =
            ListCollections #
              concat (map (\<lambda>c. [CollectionGet c, BatchCommit (collection_get c (store w))])
                        (listCollections (store w)))"
      by (simp add: clear_calls_def loop_calls_all_ok)
    with s show "store (snd (clearFirestore E w)) = []
        \<and> clear_calls E (store w) =
            ListCollections #
              concat (map (\<lambda>c. [CollectionGet c, BatchCommit (collection_get c (store w))])
                        (listCollections (store w)))" by simp
  qed
  from 1 2 3 7 ex fetched_length[of E] show ?thesis by blast
qed

lemmas url_defs = NASA_APOD_URL_def SPACEX_LAUNCH_URL_def SPACEX_HIST_URL_def NASA_EONET_URL_def

lemma mock_all_ok: "list_all (fetch_ok mock_env) (endpoints mock_env)"
  by (simp add: fetch_ok_def endpoints_def mock_env_def mock_http_def response_ok_def url_defs)

lemma mock_fetched:
  "fetched mock_env =
     [''https://api.nasa.gov/planetary/apod?api_key=DEMO_KEY'',
      ''https://api.spacexdata.com/v3/missions'',
      ''https://api.spacexdata.com/v4/history'',
      ''https://eonet.gsfc.nasa.gov/api/v3/categories/severeStorms'']"
  by (simp add: fetched_def fetch_ok_def endpoints_def mock_env_def mock_http_def response_ok_def
      url_defs)

lemma mock_snapshot_of: "snapshot_of mock_env = mock_snapshot"
  by (simp add: snapshot_of_def body_of_def mock_snapshot_def mock_env_def mock_http_def url_defs)

lemma mock_clear_calls:
  "clear_calls mock_env seeded_store =
     [ListCollections,
      CollectionGet ''spaceNews'', BatchCommit [(''spaceNews'', ''latest'')],
      CollectionGet ''misc'', BatchCommit [(''misc'', ''a''), (''misc'', ''b'')]]"
  by (simp add: clear_calls_def listCollections_def collection_get_def mock_env_def
      seeded_store_def del: set_filter set_map set_remdups)

lemma commit_rejected_clear_calls:
  "clear_calls commit_rejected_env seeded_store =
     [ListCollections,
      CollectionGet ''spaceNews'', BatchCommit [(''spaceNews'', ''latest'')],
      CollectionGet ''misc'', BatchCommit [(''misc'', ''a''), (''misc'', ''b'')]]"
  by (simp add: clear_calls_def listCollections_def collection_get_def commit_rejected_env_def
      misc_commit_error_def mock_env_def seeded_store_def del: set_filter set_map set_remdups)

text \<open>
  The scheduled run of the mocked scenario on the seeded store: the listing, a read and a
  commit for each of the two collections, four fetches, one write. And the on-demand run
  whose second commit is rejected: it stops there, with no fetch and no write.
\<close>

theorem clear_then_fetch_then_write_witness:
  "fst (clearFirestore mock_env (init seeded_store)) = Inr ()
   \<and> list_all (fetch_ok mock_env) (endpoints mock_env)
   \<and> store (snd (clearFirestore mock_env (init seeded_store))) = []
   \<and> calls (trace (invoke OnSchedule mock_env (init seeded_store))) =
       [ListCollections,
        CollectionGet ''spaceNews'', BatchCommit [(''spaceNews'', ''latest'')],
        CollectionGet ''misc'', BatchCommit [(''misc'', ''a''), (''misc'', ''b'')],
        HttpGet ''https://api.nasa.gov/planetary/apod?api_key=DEMO_KEY'' [],
        HttpGet ''https://api.spacexdata.com/v3/missions'' [],
        HttpGet ''https://api.spacexdata.com/v4/history'' [],
        HttpGet ''https://eonet.gsfc.nasa.gov/api/v3/categories/severeStorms'' [],
        DocSet (''spaceNews'', ''latest'') mock_snapshot]
   \<and> steps (trace (invoke OnSchedule mock_env (init seeded_store))) =
       [Clear, Clear, Clear, Clear, Clear, Fetch, Fetch, Fetch, Fetch, Write]
   \<and> fst (clearFirestore commit_rejected_env (init seeded_store)) = Inl (StoreError ''UNAVAILABLE'')
   \<and> calls (trace (invoke OnRequest commit_rejected_env (init seeded_store))) =
       [ListCollections,
        CollectionGet ''spaceNews'', BatchCommit [(''spaceNews'', ''latest'')],
        CollectionGet ''misc'', BatchCommit [(''misc'', ''a''), (''misc'', ''b'')]]"
proof -
  let ?w = "init seeded_store"
  have sw: "store ?w = seeded_store" and tw: "trace ?w = []" by (simp_all add: init_def)
  have c: "fst (clearFirestore mock_env ?w) = Inr ()"
    by (simp add: program_defs scenario_defs del: set_filter set_map set_remdups)
  have cr: "fst (clearFirestore commit_rejected_env ?w) = Inl (StoreError ''UNAVAILABLE'')"
    by (simp add: commit_rejected_clear)
  note m = clear_then_fetch_then_write[of OnSchedule mock_env ?w]
  from m c have s: "store (snd (clearFirestore mock_env ?w)) = []" by blast
  from m have "calls (trace (invoke OnSchedule mock_env ?w)) =
      calls (trace ?w) @ clear_calls mock_env (store ?w)
        @ (if fst (clearFirestore mock_env ?w) = Inr ()
           then map (\<lambda>u. HttpGet u []) (fetched mock_env) else [])
        @ (if fst (clearFirestore mock_env ?w) = Inr ()
              \<and> list_all (fetch_ok mock_env) (endpoints mock_env)
           then [DocSet (''spaceNews'', ''latest'') (snapshot_of mock_env)] else [])"
    by blast
  then have k: "calls (trace (invoke OnSchedule mock_env ?w)) =
       [ListCollections,
        CollectionGet ''spaceNews'', BatchCommit [(''spaceNews'', ''latest'')],
        CollectionGet ''misc'', BatchCommit [(''misc'', ''a''), (''misc'', ''b'')],
        HttpGet ''https://api.nasa.gov/planetary/apod?api_key=DEMO_KEY'' [],
        HttpGet ''https://api.spacexdata.com/v3/missions'' [],
        HttpGet ''https://api.spacexdata.com/v4/history'' [],
        HttpGet ''https://eonet.gsfc.nasa.gov/api/v3/categories/severeStorms'' [],
        DocSet (''spaceNews'', ''latest'') mock_snapshot]"
    by (simp add: sw tw c mock_all_ok mock_fetched mock_snapshot_of mock_clear_calls calls_Nil)
  from m have "steps (trace (invoke OnSchedule mock_env ?w)) =
      steps (trace ?w) @ replicate (length (clear_calls mock_env (store ?w))) Clear
        @ replicate (if fst (clearFirestore mock_env ?w) = Inr ()
                     then length (fetched mock_env) else 0) Fetch
        @ replicate (if fst (clearFirestore mock_env ?w) = Inr ()
                        \<and> list_all (fetch_ok mock_env) (endpoints mock_env)
                     then 1 else 0) Write"
    by blast
  then have st: "steps (trace (invoke OnSchedule mock_env ?w)) =
       [Clear, Clear, Clear, Clear, Clear, Fetch, Fetch, Fetch, Fetch, Write]"
    by (simp add: sw tw c mock_all_ok mock_fetched mock_clear_calls numeral_eq_Suc)
  from clear_then_fetch_then_write[of OnRequest commit_rejected_env ?w]
  have "calls (trace (invoke OnRequest commit_rejected_env ?w)) =
      calls (trace ?w) @ clear_calls commit_rejected_env (store ?w)
        @ (if fst (clearFirestore commit_rejected_env ?w) = Inr ()
           then map (\<lambda>u. HttpGet u []) (fetched commit_rejected_env) else [])
        @ (if fst (clearFirestore commit_rejected_env ?w) = Inr ()
              \<and> list_all (fetch_ok commit_rejected_env) (endpoints commit_rejected_env)
           then [DocSet (''spaceNews'', ''latest'') (snapshot_of commit_rejected_env)] else [])"
    by blast
  then have kr: "calls (trace (invoke OnRequest commit_rejected_env ?w)) =
       [ListCollections,
        CollectionGet ''spaceNews'', BatchCommit [(''spaceNews'', ''latest'')],
        CollectionGet ''misc'', BatchCommit [(''misc'', ''a''), (''misc'', ''b'')]]"
    by (simp add: sw tw cr commit_rejected_clear_calls calls_Nil)
  from c mock_all_ok s k st cr kr show ?thesis by simp
qed

section \<open>The store after a failed run\<close>

text \<open>
  Claim C3 as stated fails: the clear is not atomic as a whole. With a store that rejects
  the batch delete of the second collection, the clear fails after the first collection
  has been emptied: the store is neither unchanged nor empty.
\<close>

theorem partial_clear_counterexample:
  "fst (clearFirestore commit_rejected_env (init seeded_store)) = Inl (StoreError ''UNAVAILABLE'')
   \<and> store (snd (clearFirestore commit_rejected_env (init seeded_store))) \<noteq> seeded_store
   \<and> store (snd (fetchAndStoreSpaceNews commit_rejected_env (init seeded_store))) \<noteq> seeded_store
   \<and> store (snd (fetchAndStoreSpaceNews commit_rejected_env (init seeded_store))) =
       [((''misc'', ''a''), JNull), ((''misc'', ''b''), JBool True)]"
  unfolding commit_rejected_clear commit_rejected_run by (simp add: seeded_store_def)

text \<open>
  Claim C3, amended. For every run that fails: if the clear itself failed, the run leaves
  the store as the failed clear left it, and that is the prior store without the documents
  of the collections whose batch was committed before the failing call, every other
  document unchanged. Those collections are the listed ones before the first collection
  whose read or commit is rejected (none when the listing is rejected), and the error
  thrown is the one of that rejected call. The store is unchanged exactly when no batch was
  committed before the failure. If the clear succeeded and the run failed later, because a
  fetch failed or the write was rejected, the store is left empty.
\<close>

theorem failed_run_store:
  "(\<forall>e w1. clearFirestore E w = (Inl e, w1) \<longrightarrow>
      store (snd (fetchAndStoreSpaceNews E w)) = store w1
      \<and> store w1 = filter (\<lambda>x. fst (fst x) \<notin> set (cleared E (store w))) (store w)
      \<and> (store w1 = store w \<longleftrightarrow> cleared E (store w) = [])
      \<and> cleared E (store w) = take (length (cleared E (store w))) (listCollections (store w))
      \<and> (listCollections_error E = Some e \<and> cleared E (store w) = []
         \<or> listCollections_error E = None
           \<and> length (cleared E (store w)) < length (listCollections (store w))
           \<and> list_all (batch_ok E (store w)) (cleared E (store w))
           \<and> (get_error E (listCollections (store w) ! length (cleared E (store w))) = Some e
              \<or> get_error E (listCollections (store w) ! length (cleared E (store w))) = None
                \<and> commit_error E
                     (collection_get (listCollections (store w) ! length (cleared E (store w)))
                        (store w)) = Some e)))
   \<and> (\<forall>w1. clearFirestore E w = (Inr (), w1) \<longrightarrow>
        (fst (fetchSpaceNews E w1) = None
         \<or> (\<exists>v. fst (fetchSpaceNews E w1) = Some v
                \<and> set_error E (''spaceNews'', ''latest'') v \<noteq> None)) \<longrightarrow>
        store (snd (fetchAndStoreSpaceNews E w)) = [])"
proof (intro conjI allI impI)
  fix e w1
  assume c: "clearFirestore E w = (Inl e, w1)"
  let ?cs = "listCollections (store w)" and ?k = "length (cleared E (store w))"
  show "store (snd (fetchAndStoreSpaceNews E w)) = store w1"
    using run_clear_failed[OF c] by (simp add: store_emit)
  from clearFirestore_exact[of E w] c
  show s1: "store w1 = filter (\<lambda>x. fst (fst x) \<notin> set (cleared E (store w))) (store w)"
    by simp
  show "store w1 = store w \<longleftrightarrow> cleared E (store w) = []"
    unfolding s1 by (rule filter_cleared_unchanged[OF cleared_subset])
  show "cleared E (store w) = take ?k ?cs"
    by (simp add: cleared_def takeWhile_eq_take[symmetric] split: option.splits)
  from c have e: "fst (clearFirestore E w) = Inl e" by simp
  show "listCollections_error E = Some e \<and> cleared E (store w) = []
         \<or> listCollections_error E = None
           \<and> ?k < length ?cs
           \<and> list_all (batch_ok E (store w)) (cleared E (store w))
           \<and> (get_error E (?cs ! ?k) = Some e
              \<or> get_error E (?cs ! ?k) = None
                \<and> commit_error E (collection_get (?cs ! ?k) (store w)) = Some e)"
  proof (cases "listCollections_error E")
    case (Some e')
    with clearFirestore_error[OF e] show ?thesis by (simp add: cleared_def)
  next
    case None
    from clearFirestore_exact[of E w] e None
    have "\<not> list_all (batch_ok E (store w)) ?cs" by simp
    then have "length (takeWhile (batch_ok E (store w)) ?cs) < length ?cs"
      by (rule takeWhile_short)
    with None have k: "?k < length ?cs" by (simp add: cleared_def)
    have a: "list_all (batch_ok E (store w)) (cleared E (store w))"
      using None by (auto simp: cleared_def list_all_iff dest: set_takeWhileD)
    from clearFirestore_error[OF e] None k a show ?thesis by simp
  qed
next
  fix w1
  assume c: "clearFirestore E w = (Inr (), w1)"
    and f: "fst (fetchSpaceNews E w1) = None
         \<or> (\<exists>v. fst (fetchSpaceNews E w1) = Some v
                \<and> set_error E (''spaceNews'', ''latest'') v \<noteq> None)"
  from c have s1: "store w1 = []" by (rule clearFirestore_ok_store)
  obtain r2 w2 where p: "fetchSpaceNews E w1 = (r2, w2)" by fastforce
  from fetchSpaceNews_cases[OF p] s1 have s2: "store w2 = []" by simp
  show "store (snd (fetchAndStoreSpaceNews E w)) = []"
  proof (cases r2)
    case None
    with run_fetch_failed[OF c] p s2 show ?thesis by simp
  next
    case (Some v)
    with f p obtain e where "set_error E (''spaceNews'', ''latest'') v = Some e" by auto
    with run_set_failed[OF c, of v w2 e] p Some s2 show ?thesis by (simp add: store_emit)
  qed
qed

text \<open>The three kinds of failed run: in the clear, in a fetch, in the write.\<close>

lemma set_rejected_clear:
  "fst (clearFirestore set_rejected_env (init seeded_store)) = Inr ()"
  by (simp add: program_defs scenario_defs del: set_filter set_map set_remdups)

lemma set_rejected_fetch:
  "fst (fetchSpaceNews set_rejected_env (snd (clearFirestore set_rejected_env (init seeded_store))))
     = Some mock_snapshot"
  by (simp add: program_defs scenario_defs mock_snapshot_def del: set_filter set_map set_remdups)

lemma commit_rejected_cleared:
  "cleared commit_rejected_env seeded_store = [''spaceNews'']"
  by (simp add: cleared_def batch_ok_def program_defs scenario_defs
      del: set_filter set_map set_remdups)

theorem failed_run_store_witness:
  "clearFirestore commit_rejected_env (init seeded_store) =
     (Inl (StoreError ''UNAVAILABLE''), snd (clearFirestore commit_rejected_env (init seeded_store)))
   \<and> cleared commit_rejected_env seeded_store = [''spaceNews'']
   \<and> store (snd (fetchAndStoreSpaceNews commit_rejected_env (init seeded_store))) =
       [((''misc'', ''a''), JNull), ((''misc'', ''b''), JBool True)]
   \<and> store (snd (fetchAndStoreSpaceNews commit_rejected_env (init seeded_store))) \<noteq> seeded_store
   \<and> fst (clearFirestore history_down_env (init seeded_store)) = Inr ()
   \<and> fst (fetchSpaceNews history_down_env
            (snd (clearFirestore history_down_env (init seeded_store)))) = None
   \<and> store (snd (fetchAndStoreSpaceNews history_down_env (init seeded_store))) = []
   \<and> fst (clearFirestore set_rejected_env (init seeded_store)) = Inr ()
   \<and> fst (fetchSpaceNews set_rejected_env
            (snd (clearFirestore set_rejected_env (init seeded_store)))) = Some mock_snapshot
   \<and> set_error set_rejected_env (''spaceNews'', ''latest'') mock_snapshot \<noteq> None
   \<and> store (snd (fetchAndStoreSpaceNews set_rejected_env (init seeded_store))) = []"
proof -
  let ?w = "init seeded_store"
  note main = failed_run_store
  have sw: "store ?w = seeded_store" by (simp add: init_def)
  have c1: "clearFirestore commit_rejected_env ?w =
     (Inl (StoreError ''UNAVAILABLE''), snd (clearFirestore commit_rejected_env ?w))"
    by (simp add: commit_rejected_clear)
  have c2: "clearFirestore history_down_env ?w = (Inr (), snd (clearFirestore history_down_env ?w))"
    using history_down_clear by (simp add: prod_eq_iff)
  have c3: "clearFirestore set_rejected_env ?w = (Inr (), snd (clearFirestore set_rejected_env ?w))"
    using set_rejected_clear by (simp add: prod_eq_iff)
  have e3: "set_error set_rejected_env (''spaceNews'', ''latest'') mock_snapshot \<noteq> None"
    by (simp add: set_rejected_env_def)
  from main[of commit_rejected_env ?w] c1
  have "store (snd (fetchAndStoreSpaceNews commit_rejected_env ?w)) =
       store (snd (clearFirestore commit_rejected_env ?w))"
    and "store (snd (clearFirestore commit_rejected_env ?w)) =
       filter (\<lambda>x. fst (fst x) \<notin> set (cleared commit_rejected_env (store ?w))) (store ?w)"
    and "store (snd (clearFirestore commit_rejected_env ?w)) = store ?w
       \<longleftrightarrow> cleared commit_rejected_env (store ?w) = []"
    by blast+
  then have 1: "store (snd (fetchAndStoreSpaceNews commit_rejected_env ?w)) =
       [((''misc'', ''a''), JNull), ((''misc'', ''b''), JBool True)]"
    by (simp add: sw commit_rejected_cleared) (simp add: seeded_store_def)
  then have changed: "store (snd (fetchAndStoreSpaceNews commit_rejected_env ?w)) \<noteq> seeded_store"
    by (simp add: seeded_store_def)
  from main[of history_down_env ?w] c2 history_down_fetch
  have 2: "store (snd (fetchAndStoreSpaceNews history_down_env ?w)) = []"
    by blast
  from main[of set_rejected_env ?w] c3 set_rejected_fetch e3
  have 3: "store (snd (fetchAndStoreSpaceNews set_rejected_env ?w)) = []"
    by blast
  from c1 1 changed 2 3 e3 commit_rejected_cleared history_down_clear history_down_fetch
    set_rejected_clear set_rejected_fetch
  show ?thesis by simp
qed

section \<open>The assembled snapshot\<close>

text \<open>
  Claim C9 as stated fails on the slot names: for the mocked responses the document
  written at \<open>spaceNews/latest\<close> carries the four values under the keys \<open>nasa\<close>, \<open>spacex\<close>,
  \<open>spacexHistory\<close> and \<open>eonet\<close>, not under \<open>image\<close>, \<open>launch\<close>, \<open>launchHistory\<close> and
  \<open>environmentalEvents\<close>.
\<close>

theorem spec_slot_names_counterexample:
  "doc_read (''spaceNews'', ''latest'')
     (store (snd (fetchAndStoreSpaceNews mock_env (init seeded_store)))) = Some mock_snapshot
   \<and> doc_read (''spaceNews'', ''latest'')
     (store (snd (fetchAndStoreSpaceNews mock_env (init seeded_store)))) \<noteq> Some spec_snapshot"
  by (simp add: mock_run_store doc_read_def mock_snapshot_def spec_snapshot_def)

text \<open>
  Claim C9, amended. When all four fetches succeed, \<open>fetchSpaceNews\<close> returns the object
  holding exactly the four fetched JSON values, unchanged, in the slots \<open>nasa\<close>, \<open>spacex\<close>,
  \<open>spacexHistory\<close> and \<open>eonet\<close>; and when the clear succeeded and the store accepts the
  write, that same object is what is written: it is the argument of the write and,
  afterwards, the only document of the store, at \<open>spaceNews/latest\<close>.
\<close>

theorem snapshot_assembled_and_written:
  assumes "http E (NASA_APOD_URL E) [] = Responded s1 (Some nasaData)" and "response_ok s1"
    and "http E SPACEX_LAUNCH_URL [] = Responded s2 (Some spacexData)" and "response_ok s2"
    and "http E SPACEX_HIST_URL [] = Responded s3 (Some spacexHistoryData)" and "response_ok s3"
    and "http E NASA_EONET_URL [] = Responded s4 (Some eonetData)" and "response_ok s4"
  shows "fst (fetchSpaceNews E w) =
       Some (JObject [(''nasa'', nasaData), (''spacex'', spacexData),
                      (''spacexHistory'', spacexHistoryData), (''eonet'', eonetData)])
     \<and> (fst (clearFirestore E w) = Inr () \<longrightarrow>
        set_error E (''spaceNews'', ''latest'')
          (JObject [(''nasa'', nasaData), (''spacex'', spacexData),
                    (''spacexHistory'', spacexHistoryData), (''eonet'', eonetData)]) = None \<longrightarrow>
        store (snd (fetchAndStoreSpaceNews E w)) =
          [((''spaceNews'', ''latest''),
            JObject [(''nasa'', nasaData), (''spacex'', spacexData),
                     (''spacexHistory'', spacexHistoryData), (''eonet'', eonetData)])]
        \<and> DocSet (''spaceNews'', ''latest'')
            (JObject [(''nasa'', nasaData), (''spacex'', spacexData),
                      (''spacexHistory'', spacexHistoryData), (''eonet'', eonetData)])
          \<in> set (trace (snd (fetchAndStoreSpaceNews E w))))"
proof (intro conjI impI)
  let ?S = "JObject [(''nasa'', nasaData), (''spacex'', spacexData),
                     (''spacexHistory'', spacexHistoryData), (''eonet'', eonetData)]"
  show r: "fst (fetchSpaceNews E w) = Some ?S" for w
    using assms by (rule fetchSpaceNews_success)
  assume c: "fst (clearFirestore E w) = Inr ()"
    and e: "set_error E (''spaceNews'', ''latest'') ?S = None"
  obtain w1 where c': "clearFirestore E w = (Inr (), w1)"
    using c by (cases "clearFirestore E w") simp
  obtain w2 where f: "fetchSpaceNews E w1 = (Some ?S, w2)"
    using r[of w1] by (cases "fetchSpaceNews E w1") simp
  from c' have "store w1 = []" by (rule clearFirestore_ok_store)
  with fetchSpaceNews_cases[OF f] have s2: "store w2 = []" by simp
  note st = run_stored[OF c' f e]
  from st s2 show "store (snd (fetchAndStoreSpaceNews E w)) = [((''spaceNews'', ''latest''), ?S)]"
    by (simp add: store_emit doc_set_def)
  from st show "DocSet (''spaceNews'', ''latest'') ?S \<in> set (trace (snd (fetchAndStoreSpaceNews E w)))"
    by (simp add: trace_emit)
qed

text \<open>The specification's scenario.\<close>

lemma mock_clear: "fst (clearFirestore mock_env (init seeded_store)) = Inr ()"
  by (simp add: program_defs scenario_defs del: set_filter set_map set_remdups)

theorem snapshot_assembled_and_written_witness:
  "http mock_env (NASA_APOD_URL mock_env) [] = Responded 200 (Some mock_nasa)
   \<and> http mock_env SPACEX_LAUNCH_URL [] = Responded 200 (Some mock_spacex)
   \<and> http mock_env SPACEX_HIST_URL [] = Responded 200 (Some mock_history)
   \<and> http mock_env NASA_EONET_URL [] = Responded 200 (Some mock_eonet)
   \<and> response_ok 200
   \<and> fst (clearFirestore mock_env (init seeded_store)) = Inr ()
   \<and> set_error mock_env (''spaceNews'', ''latest'') mock_snapshot = None
   \<and> fst (fetchSpaceNews mock_env (init seeded_store)) = Some mock_snapshot
   \<and> store (snd (fetchAndStoreSpaceNews mock_env (init seeded_store))) =
       [((''spaceNews'', ''latest''), mock_snapshot)]"
proof -
  have h: "http mock_env (NASA_APOD_URL mock_env) [] = Responded 200 (Some mock_nasa)"
    "http mock_env SPACEX_LAUNCH_URL [] = Responded 200 (Some mock_spacex)"
    "http mock_env SPACEX_HIST_URL [] = Responded 200 (Some mock_history)"
    "http mock_env NASA_EONET_URL [] = Responded 200 (Some mock_eonet)"
    by (simp_all add: mock_env_def mock_http_def NASA_APOD_URL_def SPACEX_LAUNCH_URL_def
        SPACEX_HIST_URL_def NASA_EONET_URL_def)
  have ok: "response_ok 200" by (simp add: response_ok_def)
  have e: "set_error mock_env (''spaceNews'', ''latest'') mock_snapshot = None"
    by (simp add: mock_env_def)
  from snapshot_assembled_and_written[OF h(1) ok h(2) ok h(3) ok h(4) ok, of "init seeded_store"]
    mock_clear e h ok
  show ?thesis by (simp add: mock_snapshot_def)
qed

section \<open>At most one snapshot\<close>

lemma documents_filter_le:
  "length (documents (filter P s)) \<le> length (documents s)"
proof -
  have "set (map fst (filter P s)) \<subseteq> set (map fst s)" by auto
  then have "card (set (map fst (filter P s))) \<le> card (set (map fst s))"
    by (intro card_mono) simp_all
  then show ?thesis by (simp only: documents_def length_remdups_card_conv)
qed

lemma run_documents:
  "length (documents (store (snd (fetchAndStoreSpaceNews E w)))) \<le> 1
   \<or> length (documents (store (snd (fetchAndStoreSpaceNews E w)))) \<le> length (documents (store w))"
proof (cases rule: run_store_cases[of E w])
  case (clear_failed e w1)
  from clearFirestore_store[OF clear_failed(1)] obtain k where
    "store w1 = filter (\<lambda>x. fst (fst x) \<notin> set (take k (listCollections (store w)))) (store w)"
    by blast
  with clear_failed(2) show ?thesis by (simp add: documents_filter_le)
next
  case not_written
  then show ?thesis by (simp add: documents_def)
next
  case (written v)
  then show ?thesis by (simp add: documents_def)
qed

lemma run_documents_cleared:
  assumes "fst (clearFirestore E w) = Inr ()"
  shows "length (documents (store (snd (fetchAndStoreSpaceNews E w)))) \<le> 1"
proof (cases rule: run_store_cases[of E w])
  case (clear_failed e w1)
  with assms show ?thesis by simp
next
  case not_written
  then show ?thesis by (simp add: documents_def)
next
  case (written v)
  then show ?thesis by (simp add: documents_def)
qed

lemma runs_documents:
  "length (documents (store w)) \<le> 1 \<Longrightarrow> length (documents (store (runs rs w))) \<le> 1"
proof (induction rs arbitrary: w)
  case Nil
  then show ?case by simp
next
  case (Cons r rs)
  from run_documents[of "snd r" w] Cons.prems
  have "length (documents (store (invoke (fst r) (snd r) w))) \<le> 1"
    by (auto simp: invoke_eq)
  from Cons.IH[OF this] show ?case by simp
qed

lemma run_addresses:
  "set (documents (store (snd (fetchAndStoreSpaceNews E w))))
     \<subseteq> insert (''spaceNews'', ''latest'') (set (documents (store w)))"
proof (cases rule: run_store_cases[of E w])
  case (clear_failed e w1)
  from clearFirestore_store[OF clear_failed(1)] obtain k where
    "store w1 = filter (\<lambda>x. fst (fst x) \<notin> set (take k (listCollections (store w)))) (store w)"
    by blast
  with clear_failed(2) show ?thesis by (auto simp: documents_def)
next
  case not_written
  then show ?thesis by (simp add: documents_def)
next
  case (written v)
  then show ?thesis by (simp add: documents_def)
qed

lemma runs_addresses:
  "set (documents (store w)) \<subseteq> {(''spaceNews'', ''latest'')} \<Longrightarrow>
     set (documents (store (runs rs w))) \<subseteq> {(''spaceNews'', ''latest'')}"
proof (induction rs arbitrary: w)
  case Nil
  then show ?case by simp
next
  case (Cons r rs)
  from run_addresses[of "snd r" w] Cons.prems
  have "set (documents (store (invoke (fst r) (snd r) w))) \<subseteq> {(''spaceNews'', ''latest'')}"
    unfolding invoke_eq by blast
  from Cons.IH[OF this] show ?case by simp
qed

text \<open>
  Claim C4. The store invariant: the store holds no document or exactly one. It holds
  of the empty store and is kept by every run, successful or failed, by either trigger,
  so it holds after any sequence of runs, and the one document, if any, is the snapshot
  at \<open>spaceNews/latest\<close>; and whatever the store held before, a run whose clear succeeded
  leaves at most one document.
\<close>

theorem at_most_one_snapshot:
  "length (documents (store (runs rs (init [])))) \<le> 1
   \<and> set (documents (store (runs rs (init [])))) \<subseteq> {(''spaceNews'', ''latest'')}
   \<and> (length (documents (store w)) \<le> 1 \<longrightarrow> length (documents (store (runs rs w))) \<le> 1)
   \<and> (fst (clearFirestore E w) = Inr () \<longrightarrow> length (documents (store (invoke t E w))) \<le> 1)"
proof (intro conjI impI)
  show "length (documents (store (runs rs (init [])))) \<le> 1"
    by (rule runs_documents) (simp add: init_def documents_def)
  show "set (documents (store (runs rs (init [])))) \<subseteq> {(''spaceNews'', ''latest'')}"
    by (rule runs_addresses) (simp add: init_def documents_def)
  show "length (documents (store w)) \<le> 1 \<Longrightarrow> length (documents (store (runs rs w))) \<le> 1"
    by (rule runs_documents)
  show "fst (clearFirestore E w) = Inr () \<Longrightarrow> length (documents (store (invoke t E w))) \<le> 1"
    using run_documents_cleared[of E w] by (simp add: invoke_eq)
qed

text \<open>
  Two runs in a row, one by each trigger, from a store holding an earlier snapshot; and
  one run on the seeded store of three documents, whose clear succeeds.
\<close>

theorem at_most_one_snapshot_witness:
  "length (documents (store (init [((''spaceNews'', ''latest''), JString ''old'')]))) \<le> 1
   \<and> length (documents (store (runs [(OnRequest, commit_rejected_env), (OnSchedule, mock_env)]
        (init [((''spaceNews'', ''latest''), JString ''old'')])))) \<le> 1
   \<and> fst (clearFirestore mock_env (init seeded_store)) = Inr ()
   \<and> length (documents (store (invoke OnRequest mock_env (init seeded_store)))) \<le> 1"
proof -
  have h: "length (documents (store (init [((''spaceNews'', ''latest''), JString ''old'')]))) \<le> 1"
    by (simp add: init_def documents_def)
  from at_most_one_snapshot[of "[(OnRequest, commit_rejected_env), (OnSchedule, mock_env)]"
      "init [((''spaceNews'', ''latest''), JString ''old'')]" mock_env OnRequest] h
  have 1: "length (documents (store (runs [(OnRequest, commit_rejected_env), (OnSchedule, mock_env)]
        (init [((''spaceNews'', ''latest''), JString ''old'')])))) \<le> 1"
    by blast
  from at_most_one_snapshot[of "[]" "init seeded_store" mock_env OnRequest] mock_clear
  have 2: "length (documents (store (invoke OnRequest mock_env (init seeded_store)))) \<le> 1"
    by blast
  from h 1 2 mock_clear show ?thesis by simp
qed

end
